theory Spec2Isabelle
  imports Main
begin

section \<open>Values, exceptions and the runtime\<close>

text \<open>
  JavaScript values as far as the server builds or reads them: response bodies and the
  user objects that Prisma returns are objects, kept as association lists so that the
  set of keys of an object can be observed.
\<close>

datatype jsval =
    JUndefined
  | JBool bool
  | JStr string
  | JObj "(string \<times> jsval) list"
  | JArr "jsval list"

type_synonym obj = "(string \<times> jsval) list"

text \<open>Property access \<open>o.k\<close>: the value stored under the key, \<open>undefined\<close> without one.\<close>

definition get_prop :: "obj \<Rightarrow> string \<Rightarrow> jsval" where
  "get_prop ob k = (case map_of ob k of Some v \<Rightarrow> v | None \<Rightarrow> JUndefined)"

text \<open>
  Whatever a call can throw. The Prisma exceptions are the client failing to reach the
  database, a violated unique index (error code P2002) and a query whose unique
  selector is no string.
\<close>

datatype exn =
    JsonWebTokenError string
  | TokenExpiredError
  | Error string
  | PrismaClientInitializationError
  | PrismaClientKnownRequestError string
  | PrismaClientValidationError

text \<open>
  The payload of the tokens this server signs, and a token as the jsonwebtoken package
  sees the string: either a string that does not parse as a signed token, or a payload
  together with the key its signature was made with. A tampered token is a payload
  whose signature does not belong to the server's key.
\<close>

record claims =
  userId :: jsval
  iat :: int
  exp :: int

datatype token = Opaque string | Jwt string claims

text \<open>
  Everything a request handler reads from outside the repository: the three environment
  variables, the clock in whole seconds (jsonwebtoken reads
  \<open>Math.floor(Date.now() / 1000)\<close>), the identifier and timestamp the database gives
  the next inserted row, and the library functions whose results the handlers only pass
  on: \<open>ms\<close> (the timespan parser behind \<open>expiresIn\<close>, in milliseconds), bcryptjs and
  the two validator.js functions on e-mail addresses.
\<close>

record runtime =
  env_JWT_SECRET :: "string option"
  env_JWT_EXPIRES_IN :: "string option"
  env_NODE_ENV :: "string option"
  now :: int
  next_id :: string
  next_createdAt :: string
  ms :: "string \<Rightarrow> int option"
  bcrypt_hash :: "string \<Rightarrow> nat \<Rightarrow> exn + string"
  bcrypt_compare :: "string \<Rightarrow> string \<Rightarrow> exn + bool"
  isEmail :: "string \<Rightarrow> bool"
  normalizeEmail :: "string \<Rightarrow> string"

text \<open>\<open>process.env.X || d\<close>: an unset or empty variable gives the default.\<close>

definition or_default :: "string option \<Rightarrow> string \<Rightarrow> string" where
  "or_default v d = (case v of None \<Rightarrow> d | Some s \<Rightarrow> if s = [] then d else s)"

section \<open>The response object\<close>

record cookie_options =
  httpOnly :: bool
  secure :: bool
  sameSite :: string
  maxAge :: "int option"
  expires :: "int option"
  path :: string

record cookie =
  cookie_name :: string
  cookie_value :: token
  options :: cookie_options

record response =
  status :: nat
  body :: obj

text \<open>
  The Express response as the handlers change it: the JSON replies sent so far, in order,
  and the cookies set so far.
\<close>

record res =
  sent :: "response list"
  set_cookies :: "cookie list"

definition new_res :: res where
  "new_res = \<lparr>sent = [], set_cookies = []\<rparr>"

text \<open>\<open>res.status(c).json(b)\<close>\<close>

definition status_json :: "nat \<Rightarrow> obj \<Rightarrow> res \<Rightarrow> res" where
  "status_json c b r = r\<lparr>sent := sent r @ [\<lparr>status = c, body = b\<rparr>]\<rparr>"

text \<open>\<open>res.cookie(n, v, opts)\<close>\<close>

definition res_cookie :: "string \<Rightarrow> token \<Rightarrow> cookie_options \<Rightarrow> res \<Rightarrow> res" where
  "res_cookie n v opts r =
     r\<lparr>set_cookies := set_cookies r @ [\<lparr>cookie_name = n, cookie_value = v, options = opts\<rparr>]\<rparr>"

section \<open>utils/jwt\<close>

definition JWT_SECRET :: "runtime \<Rightarrow> string" where
  "JWT_SECRET w = or_default (env_JWT_SECRET w) ''your-super-secret-key-change-this-in-production''"

definition JWT_EXPIRES_IN :: "runtime \<Rightarrow> string" where
  "JWT_EXPIRES_IN w = or_default (env_JWT_EXPIRES_IN w) ''7d''"

text \<open>
  \<open>jwt.sign({ userId }, secret, { expiresIn })\<close>: the payload gets the issue time and
  the expiry \<open>iat + floor (ms expiresIn / 1000)\<close>; a string that \<open>ms\<close> cannot read
  makes the call throw.
\<close>

definition jwt_sign :: "runtime \<Rightarrow> jsval \<Rightarrow> string \<Rightarrow> string \<Rightarrow> exn + token" where
  "jwt_sign w uid secret expiresIn =
     (case ms w expiresIn of
        None \<Rightarrow> Inl (Error ''\"expiresIn\" should be a number of seconds or string representing a timespan'')
      | Some m \<Rightarrow> Inr (Jwt secret \<lparr>userId = uid, iat = now w, exp = now w + m div 1000\<rparr>))"

text \<open>
  \<open>jwt.verify(token, secret)\<close>: throws on a string that is no token, on a signature made
  with another key, and once the clock has reached the expiry; returns the payload
  otherwise.
\<close>

definition jwt_verify :: "runtime \<Rightarrow> token \<Rightarrow> string \<Rightarrow> exn + claims" where
  "jwt_verify w t secret =
     (case t of
        Opaque s \<Rightarrow> Inl (JsonWebTokenError ''jwt malformed'')
      | Jwt k p \<Rightarrow>
          if k \<noteq> secret then Inl (JsonWebTokenError ''invalid signature'')
          else if exp p \<le> now w then Inl TokenExpiredError
          else Inr p)"

definition generateToken :: "runtime \<Rightarrow> jsval \<Rightarrow> exn + token" where
  "generateToken w uid = jwt_sign w uid (JWT_SECRET w) (JWT_EXPIRES_IN w)"

definition setTokenCookie :: "runtime \<Rightarrow> res \<Rightarrow> token \<Rightarrow> res" where
  "setTokenCookie w r t =
     res_cookie ''token'' t
       \<lparr>httpOnly = True,
        secure = (env_NODE_ENV w = Some ''production''),
        sameSite = ''strict'',
        maxAge = Some (7 * 24 * 60 * 60 * 1000),
        expires = None,
        path = ''/''\<rparr> r"

definition clearTokenCookie :: "runtime \<Rightarrow> res \<Rightarrow> res" where
  "clearTokenCookie w r =
     res_cookie ''token'' (Opaque '''')
       \<lparr>httpOnly = True,
        secure = (env_NODE_ENV w = Some ''production''),
        sameSite = ''strict'',
        maxAge = None,
        expires = Some 0,
        path = ''/''\<rparr> r"

text \<open>
  The result is \<open>Inl\<close> for an exception leaving the function, \<open>Inr None\<close> for the
  \<open>null\<close> of the catch block, \<open>Inr (Some d)\<close> for the decoded payload.
\<close>

definition verifyToken :: "runtime \<Rightarrow> token \<Rightarrow> exn + claims option" where
  "verifyToken w t =
     (case jwt_verify w t (JWT_SECRET w) of
        Inr d \<Rightarrow> Inr (Some d)
      | Inl err \<Rightarrow> Inr None)"

text \<open>
  The runtime at the instant when \<open>Date.now()\<close> is \<open>t\<close> milliseconds: jsonwebtoken
  reads the clock as \<open>Math.floor(t / 1000)\<close>.
\<close>

definition at_instant :: "runtime \<Rightarrow> int \<Rightarrow> runtime" where
  "at_instant w t = w\<lparr>now := t div 1000\<rparr>"

section \<open>The users table behind the Prisma client\<close>

record user_row =
  user_id :: string
  user_name :: string
  user_email :: string
  user_password :: string
  user_createdAt :: string

text \<open>
  The table and whether the client reaches the database. The columns are the ones the
  handlers read and write. The table has a primary key on \<open>id\<close> and the unique index
  \<open>users_email_key\<close> on \<open>email\<close>.
\<close>

record db =
  users :: "user_row list"
  reachable :: bool

definition user_obj :: "user_row \<Rightarrow> obj" where
  "user_obj u =
     [(''id'', JStr (user_id u)),
      (''name'', JStr (user_name u)),
      (''email'', JStr (user_email u)),
      (''password'', JStr (user_password u)),
      (''createdAt'', JStr (user_createdAt u))]"

text \<open>The \<open>select\<close> argument of a query: without one the whole row comes back.\<close>

definition select_fields :: "string list option \<Rightarrow> obj \<Rightarrow> obj" where
  "select_fields sel ob =
     (case sel of None \<Rightarrow> ob | Some ks \<Rightarrow> filter (\<lambda>kv. fst kv \<in> set ks) ob)"

datatype where_unique = ByEmail jsval | ById jsval

text \<open>\<open>prisma.user.findUnique({ where, select })\<close>\<close>

definition findUnique :: "db \<Rightarrow> where_unique \<Rightarrow> string list option \<Rightarrow> exn + obj option" where
  "findUnique d wh sel =
     (case wh of
        ByEmail (JStr e) \<Rightarrow>
          if reachable d
          then Inr (map_option (select_fields sel \<circ> user_obj) (find (\<lambda>u. user_email u = e) (users d)))
          else Inl PrismaClientInitializationError
      | ById (JStr i) \<Rightarrow>
          if reachable d
          then Inr (map_option (select_fields sel \<circ> user_obj) (find (\<lambda>u. user_id u = i) (users d)))
          else Inl PrismaClientInitializationError
      | _ \<Rightarrow> Inl PrismaClientValidationError)"

text \<open>
  \<open>prisma.user.create({ data: { name, email, password }, select })\<close>: the insert is
  refused when a row already has the e-mail address (the unique index) or the
  identifier (the primary key).
\<close>

definition create :: "runtime \<Rightarrow> db \<Rightarrow> string \<Rightarrow> string \<Rightarrow> string \<Rightarrow> string list option \<Rightarrow> exn + db \<times> obj" where
  "create w d n e p sel =
     (if \<not> reachable d then Inl PrismaClientInitializationError
      else if find (\<lambda>u. user_email u = e) (users d) \<noteq> None then Inl (PrismaClientKnownRequestError ''P2002'')
      else if find (\<lambda>u. user_id u = next_id w) (users d) \<noteq> None then Inl (PrismaClientKnownRequestError ''P2002'')
      else
        let row = \<lparr>user_id = next_id w, user_name = n, user_email = e, user_password = p,
                   user_createdAt = next_createdAt w\<rparr>
        in Inr (d\<lparr>users := users d @ [row]\<rparr>, select_fields sel (user_obj row)))"

section \<open>The request\<close>

text \<open>
  The password of the body. No sanitizer touches it, so a controller gets the JSON value
  that was sent: nothing, a string, or a value that is no string (a number, a boolean,
  null, an array, an object). Of a value that is no string the handlers and the route's
  validators read four things, and these stand for the value here: whether it is truthy,
  whether its \<open>.length\<close> is below 6 (a number has none, and \<open>undefined < 6\<close> is
  false), and whether \<open>notEmpty()\<close> and \<open>isLength({ min: 6 })\<close> of
  express-validator accept it.
\<close>

record nonstring =
  ns_truthy :: bool
  ns_short :: bool
  ns_notEmpty :: bool
  ns_isLength6 :: bool

datatype password_value = Absent | Str string | NonString nonstring

text \<open>
  The JSON body as the handlers read it. The name and the email are absent or a string;
  both pass through a sanitizer of the route before a controller reads them. Strings are
  ASCII, so that a character is one UTF-16 code unit and \<open>length\<close> is the
  \<open>.length\<close> of the source.
\<close>

record body_fields =
  name :: "string option"
  email :: "string option"
  password :: password_value

text \<open>
  The request: its body, the \<open>token\<close> cookie (\<open>req.cookies?.token\<close>) and the
  \<open>user\<close> property that the middleware sets.
\<close>

record request =
  req_body :: body_fields
  req_token :: "token option"
  req_user :: "obj option"

text \<open>\<open>!v\<close> for a value that is undefined or a string.\<close>

definition falsy :: "string option \<Rightarrow> bool" where
  "falsy v = (case v of None \<Rightarrow> True | Some s \<Rightarrow> s = [])"

text \<open>\<open>!password\<close>\<close>

definition no_password :: "password_value \<Rightarrow> bool" where
  "no_password p =
     (case p of Absent \<Rightarrow> True | Str s \<Rightarrow> s = [] | NonString v \<Rightarrow> \<not> ns_truthy v)"

text \<open>
  \<open>password.length < 6\<close>. The source reads it of a truthy password only; an absent one
  counts as short here.
\<close>

definition short_password :: "password_value \<Rightarrow> bool" where
  "short_password p =
     (case p of Absent \<Rightarrow> True | Str s \<Rightarrow> length s < 6 | NonString v \<Rightarrow> ns_short v)"

text \<open>\<open>!token\<close>: no cookie, or the empty string.\<close>

definition no_token :: "token option \<Rightarrow> bool" where
  "no_token t = (case t of None \<Rightarrow> True | Some (Opaque s) \<Rightarrow> s = [] | Some (Jwt k p) \<Rightarrow> False)"

section \<open>middleware/authMiddleware\<close>

definition user_select :: "string list" where
  "user_select = [''id'', ''name'', ''email'', ''createdAt'']"

text \<open>
  What the middleware leaves behind: the request (with \<open>req.user\<close> set on success), the
  response, and whether \<open>next()\<close> was called.
\<close>

record passed =
  mw_req :: request
  mw_res :: res
  mw_next :: bool

text \<open>\<open>return res.status(c).json({ success: false, message: m })\<close> in the middleware.\<close>

definition deny :: "nat \<Rightarrow> string \<Rightarrow> request \<Rightarrow> res \<Rightarrow> passed" where
  "deny c m req r =
     \<lparr>mw_req = req,
      mw_res = status_json c [(''success'', JBool False), (''message'', JStr m)] r,
      mw_next = False\<rparr>"

definition authenticate :: "runtime \<Rightarrow> db \<Rightarrow> request \<Rightarrow> res \<Rightarrow> passed" where
  "authenticate w d req r =
     (case req_token req of
        None \<Rightarrow> deny 401 ''Authentication required. Please sign in.'' req r
      | Some t \<Rightarrow>
          if no_token (Some t) then deny 401 ''Authentication required. Please sign in.'' req r
          else
            (case verifyToken w t of
               Inl err \<Rightarrow> deny 500 ''Internal server error during authentication'' req r
             | Inr None \<Rightarrow> deny 401 ''Invalid or expired token. Please sign in again.'' req r
             | Inr (Some decoded) \<Rightarrow>
                 (case findUnique d (ById (userId decoded)) (Some user_select) of
                    Inl err \<Rightarrow> deny 500 ''Internal server error during authentication'' req r
                  | Inr None \<Rightarrow> deny 401 ''User not found. Please sign in again.'' req r
                  | Inr (Some u) \<Rightarrow>
                      \<lparr>mw_req = req\<lparr>req_user := Some u\<rparr>, mw_res = r, mw_next = True\<rparr>)))"

section \<open>controllers/authController\<close>

definition internal_error :: "res \<Rightarrow> res" where
  "internal_error r =
     status_json 500 [(''success'', JBool False), (''message'', JStr ''Internal server error'')] r"

text \<open>
  \<open>bcrypt.hash(password, saltRounds)\<close> and \<open>bcrypt.compare(password, user.password)\<close>:
  bcryptjs throws on an argument that is no string.
\<close>

definition hash_password :: "runtime \<Rightarrow> password_value \<Rightarrow> nat \<Rightarrow> exn + string" where
  "hash_password w p saltRounds =
     (case p of Str s \<Rightarrow> bcrypt_hash w s saltRounds | _ \<Rightarrow> Inl (Error ''Illegal arguments''))"

definition compare_password :: "runtime \<Rightarrow> password_value \<Rightarrow> jsval \<Rightarrow> exn + bool" where
  "compare_password w p h =
     (case p of
        Str s \<Rightarrow>
          (case h of JStr hs \<Rightarrow> bcrypt_compare w s hs | _ \<Rightarrow> Inl (Error ''Illegal arguments''))
      | _ \<Rightarrow> Inl (Error ''Illegal arguments''))"

definition signUp :: "runtime \<Rightarrow> db \<Rightarrow> request \<Rightarrow> res \<Rightarrow> db \<times> res" where
  "signUp w d req r =
     (case (name (req_body req), email (req_body req)) of
        (Some n, Some e) \<Rightarrow>
          if n = [] \<or> e = [] \<or> no_password (password (req_body req)) then
            (d, status_json 400
               [(''success'', JBool False),
                (''message'', JStr ''Please provide name, email, and password'')] r)
          else if short_password (password (req_body req)) then
            (d, status_json 400
               [(''success'', JBool False),
                (''message'', JStr ''Password must be at least 6 characters long'')] r)
          else
            (case findUnique d (ByEmail (JStr e)) None of
               Inl err \<Rightarrow> (d, internal_error r)
             | Inr (Some existingUser) \<Rightarrow>
                 (d, status_json 400
                    [(''success'', JBool False),
                     (''message'', JStr ''Email already registered'')] r)
             | Inr None \<Rightarrow>
                 (case hash_password w (password (req_body req)) 10 of
                    Inl err \<Rightarrow> (d, internal_error r)
                  | Inr hashedPassword \<Rightarrow>
                      (case create w d n e hashedPassword (Some user_select) of
                         Inl err \<Rightarrow> (d, internal_error r)
                       | Inr (d', newUser) \<Rightarrow>
                           (case generateToken w (get_prop newUser ''id'') of
                              Inl err \<Rightarrow> (d', internal_error r)
                            | Inr t \<Rightarrow>
                                (d', status_json 201
                                   [(''success'', JBool True),
                                    (''message'', JStr ''User created successfully''),
                                    (''user'', JObj newUser)]
                                   (setTokenCookie w r t))))))
      | _ \<Rightarrow>
          (d, status_json 400
             [(''success'', JBool False),
              (''message'', JStr ''Please provide name, email, and password'')] r))"

definition signIn :: "runtime \<Rightarrow> db \<Rightarrow> request \<Rightarrow> res \<Rightarrow> res" where
  "signIn w d req r =
     (case email (req_body req) of
        Some e \<Rightarrow>
          if e = [] \<or> no_password (password (req_body req)) then
            status_json 400
              [(''success'', JBool False),
               (''message'', JStr ''Please provide email and password'')] r
          else
            (case findUnique d (ByEmail (JStr e)) None of
               Inl err \<Rightarrow> internal_error r
             | Inr None \<Rightarrow>
                 status_json 401
                   [(''success'', JBool False),
                    (''message'', JStr ''Invalid email or password'')] r
             | Inr (Some user) \<Rightarrow>
                 (case compare_password w (password (req_body req)) (get_prop user ''password'') of
                    Inl err \<Rightarrow> internal_error r
                  | Inr isPasswordValid \<Rightarrow>
                      if \<not> isPasswordValid then
                        status_json 401
                          [(''success'', JBool False),
                           (''message'', JStr ''Invalid email or password'')] r
                      else
                        (case generateToken w (get_prop user ''id'') of
                           Inl err \<Rightarrow> internal_error r
                         | Inr t \<Rightarrow>
                             status_json 200
                               [(''success'', JBool True),
                                (''message'', JStr ''Signed in successfully''),
                                (''user'', JObj
                                   [(''id'', get_prop user ''id''),
                                    (''name'', get_prop user ''name''),
                                    (''email'', get_prop user ''email''),
                                    (''createdAt'', get_prop user ''createdAt'')])]
                               (setTokenCookie w r t))))
      | None \<Rightarrow>
          status_json 400
            [(''success'', JBool False),
             (''message'', JStr ''Please provide email and password'')] r)"

definition signOut :: "runtime \<Rightarrow> request \<Rightarrow> res \<Rightarrow> res" where
  "signOut w req r =
     status_json 200
       [(''success'', JBool True), (''message'', JStr ''Signed out successfully'')]
       (clearTokenCookie w r)"

section \<open>routes/authRoutes\<close>

text \<open>
  The express-validator chains on strings. A sanitizer reads an absent field as the empty
  string; \<open>trim\<close> strips white space at both ends; \<open>notEmpty\<close> asks for a non-empty
  string and \<open>isLength\<close> bounds the number of characters. Every validator of a chain
  runs (no chain bails out), and each failure adds its field and message to the errors.
\<close>

definition str_of :: "string option \<Rightarrow> string" where
  "str_of v = (case v of None \<Rightarrow> [] | Some s \<Rightarrow> s)"

text \<open>\<open>notEmpty()\<close> and \<open>isLength({ min: 6 })\<close> on the password, which no sanitizer reads.\<close>

definition notEmpty_password :: "password_value \<Rightarrow> bool" where
  "notEmpty_password p =
     (case p of Absent \<Rightarrow> False | Str s \<Rightarrow> s \<noteq> [] | NonString v \<Rightarrow> ns_notEmpty v)"

definition isLength6_password :: "password_value \<Rightarrow> bool" where
  "isLength6_password p =
     (case p of Absent \<Rightarrow> False | Str s \<Rightarrow> 6 \<le> length s | NonString v \<Rightarrow> ns_isLength6 v)"

definition is_space :: "char \<Rightarrow> bool" where
  "is_space c = (c \<in> set [CHR '' '', CHR 0x09, CHR 0x0A, CHR 0x0B, CHR 0x0C, CHR 0x0D])"

definition trim :: "string \<Rightarrow> string" where
  "trim s = rev (dropWhile is_space (rev (dropWhile is_space s)))"

definition failing :: "bool \<Rightarrow> string \<Rightarrow> string \<Rightarrow> (string \<times> string) list" where
  "failing ok field msg = (if ok then [] else [(field, msg)])"

definition validateSignUp :: "runtime \<Rightarrow> body_fields \<Rightarrow> body_fields \<times> (string \<times> string) list" where
  "validateSignUp w b =
     (let n = trim (str_of (name b));
          e = trim (str_of (email b));
          p = password b
      in (b\<lparr>name := Some n, email := Some (normalizeEmail w e)\<rparr>,
          failing (n \<noteq> []) ''name'' ''Name is required'' @
          failing (2 \<le> length n \<and> length n \<le> 50) ''name'' ''Name must be between 2 and 50 characters'' @
          failing (e \<noteq> []) ''email'' ''Email is required'' @
          failing (isEmail w e) ''email'' ''Please provide a valid email address'' @
          failing (notEmpty_password p) ''password'' ''Password is required'' @
          failing (isLength6_password p) ''password'' ''Password must be at least 6 characters long''))"

definition validateSignIn :: "runtime \<Rightarrow> body_fields \<Rightarrow> body_fields \<times> (string \<times> string) list" where
  "validateSignIn w b =
     (let e = trim (str_of (email b));
          p = password b
      in (b\<lparr>email := Some (normalizeEmail w e)\<rparr>,
          failing (e \<noteq> []) ''email'' ''Email is required'' @
          failing (isEmail w e) ''email'' ''Please provide a valid email address'' @
          failing (notEmpty_password p) ''password'' ''Password is required''))"

text \<open>The result says whether \<open>next()\<close> was called.\<close>

definition checkValidation :: "(string \<times> string) list \<Rightarrow> res \<Rightarrow> res \<times> bool" where
  "checkValidation errors r =
     (if errors \<noteq> [] then
        (status_json 400
           [(''success'', JBool False),
            (''message'', JStr ''Validation failed''),
            (''errors'', JArr (map (\<lambda>err. JObj [(''field'', JStr (fst err)), (''message'', JStr (snd err))]) errors))]
           r, False)
      else (r, True))"

text \<open>\<open>router.post('/signup', validateSignUp, checkValidation, signUp)\<close>\<close>

definition post_signup :: "runtime \<Rightarrow> db \<Rightarrow> request \<Rightarrow> res \<Rightarrow> db \<times> res" where
  "post_signup w d req r =
     (case validateSignUp w (req_body req) of
        (b, errors) \<Rightarrow>
          (case checkValidation errors r of
             (r', go) \<Rightarrow> if go then signUp w d (req\<lparr>req_body := b\<rparr>) r' else (d, r')))"

text \<open>\<open>router.post('/signin', validateSignIn, checkValidation, signIn)\<close>\<close>

definition post_signin :: "runtime \<Rightarrow> db \<Rightarrow> request \<Rightarrow> res \<Rightarrow> res" where
  "post_signin w d req r =
     (case validateSignIn w (req_body req) of
        (b, errors) \<Rightarrow>
          (case checkValidation errors r of
             (r', go) \<Rightarrow> if go then signIn w d (req\<lparr>req_body := b\<rparr>) r' else r'))"

text \<open>\<open>router.post('/signout', authenticate, signOut)\<close>\<close>

definition post_signout :: "runtime \<Rightarrow> db \<Rightarrow> request \<Rightarrow> res \<Rightarrow> res" where
  "post_signout w d req r =
     (let m = authenticate w d req r
      in if mw_next m then signOut w (mw_req m) (mw_res m) else mw_res m)"

section \<open>Two sign-ups at once\<close>

text \<open>
  \<open>signUp\<close> is an async function: it gives up control at each \<open>await\<close>, and the
  handler of another request may run in between. The part up to the answer of
  \<open>findUnique\<close> and the part from there on are the two pieces that matter for the
  table: the first only reads it, the second inserts.
\<close>

definition signUp_lookup ::
    "runtime \<Rightarrow> db \<Rightarrow> request \<Rightarrow> res \<Rightarrow> res + string \<times> string \<times> password_value" where
  "signUp_lookup w d req r =
     (case (name (req_body req), email (req_body req)) of
        (Some n, Some e) \<Rightarrow>
          if n = [] \<or> e = [] \<or> no_password (password (req_body req)) then
            Inl (status_json 400
               [(''success'', JBool False),
                (''message'', JStr ''Please provide name, email, and password'')] r)
          else if short_password (password (req_body req)) then
            Inl (status_json 400
               [(''success'', JBool False),
                (''message'', JStr ''Password must be at least 6 characters long'')] r)
          else
            (case findUnique d (ByEmail (JStr e)) None of
               Inl err \<Rightarrow> Inl (internal_error r)
             | Inr (Some existingUser) \<Rightarrow>
                 Inl (status_json 400
                    [(''success'', JBool False),
                     (''message'', JStr ''Email already registered'')] r)
             | Inr None \<Rightarrow> Inr (n, e, password (req_body req)))
      | _ \<Rightarrow>
          Inl (status_json 400
             [(''success'', JBool False),
              (''message'', JStr ''Please provide name, email, and password'')] r))"

definition signUp_insert ::
    "runtime \<Rightarrow> db \<Rightarrow> string \<times> string \<times> password_value \<Rightarrow> res \<Rightarrow> db \<times> res" where
  "signUp_insert w d nep r =
     (case nep of
        (n, e, p) \<Rightarrow>
          (case hash_password w p 10 of
             Inl err \<Rightarrow> (d, internal_error r)
           | Inr hashedPassword \<Rightarrow>
               (case create w d n e hashedPassword (Some user_select) of
                  Inl err \<Rightarrow> (d, internal_error r)
                | Inr (d', newUser) \<Rightarrow>
                    (case generateToken w (get_prop newUser ''id'') of
                       Inl err \<Rightarrow> (d', internal_error r)
                     | Inr t \<Rightarrow>
                         (d', status_json 201
                            [(''success'', JBool True),
                             (''message'', JStr ''User created successfully''),
                             (''user'', JObj newUser)]
                            (setTokenCookie w r t))))))"

definition signUp_resume ::
    "runtime \<Rightarrow> db \<Rightarrow> res + string \<times> string \<times> password_value \<Rightarrow> res \<Rightarrow> db \<times> res" where
  "signUp_resume w d s r = (case s of Inl r' \<Rightarrow> (d, r') | Inr nep \<Rightarrow> signUp_insert w d nep r)"

text \<open>
  Two requests whose lookups are both answered before either of them inserts; the first
  request then inserts before the second. The result is the table and the two responses.
\<close>

definition signUp_overlapped ::
    "runtime \<Rightarrow> runtime \<Rightarrow> db \<Rightarrow> request \<Rightarrow> request \<Rightarrow> db \<times> res \<times> res" where
  "signUp_overlapped w1 w2 d req1 req2 =
     (let s1 = signUp_lookup w1 d req1 new_res;
          s2 = signUp_lookup w2 d req2 new_res
      in case signUp_resume w1 d s1 new_res of
           (d1, r1) \<Rightarrow>
             (case signUp_resume w2 d1 s2 new_res of
                (d2, r2) \<Rightarrow> (d2, r1, r2)))"

section \<open>Properties of responses\<close>

text \<open>The flag of a response agrees with its status: \<open>success\<close> is true exactly on 2xx.\<close>

definition flag_agrees :: "response \<Rightarrow> bool" where
  "flag_agrees rsp =
     (map_of (body rsp) ''success'' = Some (JBool (200 \<le> status rsp \<and> status rsp < 300)))"

text \<open>A user projection: an object with the keys id, name, email and createdAt only.\<close>

definition is_projection :: "jsval \<Rightarrow> bool" where
  "is_projection v = (case v of JObj ob \<Rightarrow> map fst ob = user_select | _ \<Rightarrow> False)"

text \<open>\<open>v.password\<close> of a value sent or attached.\<close>

definition password_of :: "jsval \<Rightarrow> jsval" where
  "password_of v = (case v of JObj ob \<Rightarrow> get_prop ob ''password'' | _ \<Rightarrow> JUndefined)"

text \<open>A reply whose flag agrees with its status and whose user, if it has one, is a projection.\<close>

definition reply_ok :: "response \<Rightarrow> bool" where
  "reply_ok rsp =
     (flag_agrees rsp \<and>
      (case map_of (body rsp) ''user'' of None \<Rightarrow> True | Some v \<Rightarrow> is_projection v))"

text \<open>The user projection of each reply that has a \<open>user\<close> field.\<close>

definition users_sent :: "res \<Rightarrow> jsval list" where
  "users_sent r = concat (map (\<lambda>rsp. case map_of (body rsp) ''user'' of None \<Rightarrow> [] | Some v \<Rightarrow> [v]) (sent r))"

text \<open>The lifetime of a signed token in milliseconds, from its own payload.\<close>

definition lifetime_ms :: "token \<Rightarrow> int option" where
  "lifetime_ms t = (case t of Opaque s \<Rightarrow> None | Jwt k p \<Rightarrow> Some (1000 * (exp p - iat p)))"

text \<open>
  A reply that turns the request down for its fields: status 400 with the message of the
  route's validation or one of the two of the controller's.
\<close>

definition rejects_fields :: "res \<Rightarrow> bool" where
  "rejects_fields r =
     (case sent r of
        [rsp] \<Rightarrow>
          status rsp = 400 \<and>
          get_prop (body rsp) ''message'' \<in> set
            [JStr ''Validation failed'',
             JStr ''Please provide name, email, and password'',
             JStr ''Password must be at least 6 characters long'']
      | _ \<Rightarrow> False)"

text \<open>Lower case of an ASCII letter.\<close>

definition to_lower :: "char \<Rightarrow> char" where
  "to_lower c =
     (let n = (of_char c :: nat) in if 65 \<le> n \<and> n \<le> 90 then char_of (n + 32) else c)"

section \<open>An example installation\<close>

text \<open>
  Stand-ins for the libraries, enough to run the handlers on examples: the two timespans
  used below as \<open>ms\<close> reads them, a hash that only tags the password, an address test
  that looks for the at sign, and lower-casing as normalisation.
\<close>

definition ms_example :: "string \<Rightarrow> int option" where
  "ms_example s = (if s = ''7d'' then Some 604800000 else if s = ''1h'' then Some 3600000 else None)"

definition example_runtime :: runtime where
  "example_runtime =
     \<lparr>env_JWT_SECRET = Some ''k3y'',
      env_JWT_EXPIRES_IN = None,
      env_NODE_ENV = Some ''production'',
      now = 1000,
      next_id = ''u2'',
      next_createdAt = ''2024-05-01T10:00:00.000Z'',
      ms = ms_example,
      bcrypt_hash = (\<lambda>p rounds. Inr (''$2a$'' @ p)),
      bcrypt_compare = (\<lambda>p h. Inr (h = ''$2a$'' @ p)),
      isEmail = (\<lambda>s. CHR ''@'' \<in> set (map to_lower s)),
      normalizeEmail = map to_lower\<rparr>"

definition example_db :: db where
  "example_db =
     \<lparr>users =
        [\<lparr>user_id = ''u1'', user_name = ''John'', user_email = ''john@example.com'',
          user_password = ''$2a$secret1'', user_createdAt = ''2024-04-01T09:00:00.000Z''\<rparr>],
      reachable = True\<rparr>"

definition example_request :: "string option \<Rightarrow> string option \<Rightarrow> password_value \<Rightarrow> request" where
  "example_request n e p =
     \<lparr>req_body = \<lparr>name = n, email = e, password = p\<rparr>, req_token = None, req_user = None\<rparr>"

definition hourly_runtime :: runtime where
  "hourly_runtime = example_runtime\<lparr>env_JWT_EXPIRES_IN := Some ''1h''\<rparr>"

text \<open>
  The JSON number 1234567 as a password: it is truthy, it has no \<open>.length\<close>, and
  express-validator reads it as the seven characters \<open>1234567\<close>.
\<close>

definition number_1234567 :: password_value where
  "number_1234567 =
     NonString \<lparr>ns_truthy = True, ns_short = False, ns_notEmpty = True, ns_isLength6 = True\<rparr>"

definition example_token :: token where
  "example_token = Jwt ''k3y'' \<lparr>userId = JStr ''u1'', iat = 900, exp = 604900\<rparr>"

section \<open>Basic facts\<close>

lemma sent_status_json [simp]: "sent (status_json c b r) = sent r @ [\<lparr>status = c, body = b\<rparr>]"
  and cookies_status_json [simp]: "set_cookies (status_json c b r) = set_cookies r"
  by (simp_all add: status_json_def)

lemma sent_res_cookie [simp]: "sent (res_cookie n v opts r) = sent r"
  by (simp add: res_cookie_def)

lemma sent_setTokenCookie [simp]: "sent (setTokenCookie w r t) = sent r"
  by (simp add: setTokenCookie_def)

lemma sent_clearTokenCookie [simp]: "sent (clearTokenCookie w r) = sent r"
  by (simp add: clearTokenCookie_def)

lemma sent_internal_error [simp]:
  "sent (internal_error r) =
     sent r @ [\<lparr>status = 500, body = [(''success'', JBool False), (''message'', JStr ''Internal server error'')]\<rparr>]"
  by (simp add: internal_error_def)

lemma password_simps [simp]:
  "no_password Absent"
  "no_password (Str s) = (s = [])"
  "no_password (NonString v) = (\<not> ns_truthy v)"
  "short_password Absent"
  "short_password (Str s) = (length s < 6)"
  "short_password (NonString v) = ns_short v"
  "notEmpty_password Absent = False"
  "notEmpty_password (Str s) = (s \<noteq> [])"
  "notEmpty_password (NonString v) = ns_notEmpty v"
  "isLength6_password Absent = False"
  "isLength6_password (Str s) = (6 \<le> length s)"
  "isLength6_password (NonString v) = ns_isLength6 v"
  by (simp_all add: no_password_def short_password_def notEmpty_password_def
        isLength6_password_def)

lemmas example_defs =
  example_runtime_def example_db_def example_request_def example_token_def hourly_runtime_def
  ms_example_def number_1234567_def

lemmas jwt_defs =
  generateToken_def jwt_sign_def verifyToken_def jwt_verify_def JWT_SECRET_def JWT_EXPIRES_IN_def
  or_default_def

lemma deny_simps [simp]:
  "mw_req (deny c m req r) = req"
  "sent (mw_res (deny c m req r)) = sent r @ [\<lparr>status = c, body = [(''success'', JBool False), (''message'', JStr m)]\<rparr>]"
  "set_cookies (mw_res (deny c m req r)) = set_cookies r"
  "mw_next (deny c m req r) = False"
  by (simp_all add: deny_def)

lemma select_user_obj:
  "select_fields (Some user_select) (user_obj u) =
     [(''id'', JStr (user_id u)), (''name'', JStr (user_name u)),
      (''email'', JStr (user_email u)), (''createdAt'', JStr (user_createdAt u))]"
  by (simp add: select_fields_def user_obj_def user_select_def)

lemma findUnique_selected:
  "findUnique d wh (Some user_select) = Inr (Some u) \<Longrightarrow> map fst u = user_select"
  by (auto simp: findUnique_def select_user_obj
           split: where_unique.splits jsval.splits if_splits)
     (simp_all add: user_select_def)

lemma findUnique_ById:
  "findUnique d (ById (JStr i)) sel =
     (if reachable d
      then Inr (map_option (select_fields sel \<circ> user_obj) (find (\<lambda>u. user_id u = i) (users d)))
      else Inl PrismaClientInitializationError)"
  by (simp add: findUnique_def)

section \<open>The token service\<close>

text \<open>
  C5. Whatever string arrives as a token, well formed or not, signed with the server's
  key or another, expired or not: \<open>verifyToken\<close> returns. It returns the decoded
  payload when \<open>jwt.verify\<close> returns it, and \<open>null\<close> when \<open>jwt.verify\<close> throws; no
  exception leaves it. The payload comes back exactly for a token signed with the
  server's key that has not expired.
\<close>

theorem verifyToken_returns:
  "((\<exists>d. jwt_verify w t (JWT_SECRET w) = Inr d \<and> verifyToken w t = Inr (Some d))
    \<or> ((\<exists>e. jwt_verify w t (JWT_SECRET w) = Inl e) \<and> verifyToken w t = Inr None))
   \<and> verifyToken w t =
       Inr (case t of
              Opaque s \<Rightarrow> None
            | Jwt k p \<Rightarrow> if k = JWT_SECRET w \<and> now w < exp p then Some p else None)"
proof
  show "(\<exists>d. jwt_verify w t (JWT_SECRET w) = Inr d \<and> verifyToken w t = Inr (Some d))
    \<or> ((\<exists>e. jwt_verify w t (JWT_SECRET w) = Inl e) \<and> verifyToken w t = Inr None)"
    by (cases "jwt_verify w t (JWT_SECRET w)") (simp_all add: verifyToken_def)
  show "verifyToken w t =
       Inr (case t of
              Opaque s \<Rightarrow> None
            | Jwt k p \<Rightarrow> if k = JWT_SECRET w \<and> now w < exp p then Some p else None)"
    by (simp add: verifyToken_def jwt_verify_def split: token.splits)
qed

lemma at_instant_simps [simp]:
  "now (at_instant w t) = t div 1000"
  "ms (at_instant w t) = ms w"
  "JWT_SECRET (at_instant w t) = JWT_SECRET w"
  "JWT_EXPIRES_IN (at_instant w t) = JWT_EXPIRES_IN w"
  by (simp_all add: at_instant_def JWT_SECRET_def JWT_EXPIRES_IN_def)

text \<open>
  C4, as stated, at the default lifetime of seven days (604800000 ms): a token issued
  when \<open>Date.now()\<close> is 1000500 is rejected when \<open>Date.now()\<close> is 605800200, which
  is 300 ms before the lifetime has passed.
\<close>

theorem token_rejected_within_lifetime:
  "ms example_runtime (JWT_EXPIRES_IN example_runtime) = Some 604800000
   \<and> generateToken (at_instant example_runtime 1000500) (JStr ''u1'')
       = Inr (Jwt ''k3y'' \<lparr>userId = JStr ''u1'', iat = 1000, exp = 605800\<rparr>)
   \<and> (605800200 :: int) < 1000500 + 604800000
   \<and> verifyToken (at_instant example_runtime 605800200)
         (Jwt ''k3y'' \<lparr>userId = JStr ''u1'', iat = 1000, exp = 605800\<rparr>) = Inr None"
  by (simp add: example_defs jwt_defs at_instant_def)

text \<open>
  C4, amended. With a lifetime that \<open>ms\<close> reads as \<open>L\<close> milliseconds,
  \<open>generateToken\<close> at the instant \<open>T\<close> (in milliseconds) gives a token signed with
  the server's key that carries the user id, the issue time \<open>T div 1000\<close> and the expiry
  \<open>T div 1000 + L div 1000\<close>, in whole seconds. At every instant before 1000 times
  the expiry it verifies and decodes to that payload, so to the same user id; at every
  instant from there on it is rejected with \<open>null\<close>. That boundary lies less than two
  seconds before \<open>T + L\<close> and not after it: the token verifies at every instant up to
  \<open>T + L - 2000\<close> and is rejected at every instant from \<open>T + L\<close> on.
\<close>

theorem token_lifetime:
  assumes "ms w (JWT_EXPIRES_IN w) = Some L"
  shows "\<exists>p. generateToken (at_instant w T) uid = Inr (Jwt (JWT_SECRET w) p)
           \<and> userId p = uid \<and> iat p = T div 1000 \<and> exp p = T div 1000 + L div 1000
           \<and> (\<forall>t. t < 1000 * exp p \<longrightarrow>
                  verifyToken (at_instant w t) (Jwt (JWT_SECRET w) p) = Inr (Some p))
           \<and> (\<forall>t. 1000 * exp p \<le> t \<longrightarrow>
                  verifyToken (at_instant w t) (Jwt (JWT_SECRET w) p) = Inr None)
           \<and> T + L - 2000 < 1000 * exp p \<and> 1000 * exp p \<le> T + L"
proof -
  let ?p = "\<lparr>userId = uid, iat = T div 1000, exp = T div 1000 + L div 1000\<rparr>"
  have gen: "generateToken (at_instant w T) uid = Inr (Jwt (JWT_SECRET w) ?p)"
    using assms by (simp add: generateToken_def jwt_sign_def)
  have ok: "verifyToken (at_instant w t) (Jwt (JWT_SECRET w) ?p) = Inr (Some ?p)"
    if "t < 1000 * exp ?p" for t
  proof -
    from that have "t div 1000 < T div 1000 + L div 1000" by simp
    then show ?thesis by (simp add: verifyToken_def jwt_verify_def)
  qed
  have late: "verifyToken (at_instant w t) (Jwt (JWT_SECRET w) ?p) = Inr None"
    if "1000 * exp ?p \<le> t" for t
  proof -
    from that have "T div 1000 + L div 1000 \<le> t div 1000" by simp
    then show ?thesis by (simp add: verifyToken_def jwt_verify_def)
  qed
  have bounds: "T + L - 2000 < 1000 * exp ?p \<and> 1000 * exp ?p \<le> T + L"
  proof -
    have e: "1000 * exp ?p = (T - T mod 1000) + (L - L mod 1000)"
      by (simp add: minus_mod_eq_mult_div)
    have "0 \<le> T mod 1000 \<and> T mod 1000 < 1000 \<and> 0 \<le> L mod 1000 \<and> L mod 1000 < 1000"
      by simp
    then show ?thesis unfolding e by linarith
  qed
  from gen ok late bounds show ?thesis
    by (intro exI [of _ ?p]) simp
qed

theorem token_lifetime_witness:
  "ms example_runtime (JWT_EXPIRES_IN example_runtime) = Some 604800000
   \<and> generateToken (at_instant example_runtime 1000500) (JStr ''u1'')
       = Inr (Jwt ''k3y'' \<lparr>userId = JStr ''u1'', iat = 1000, exp = 605800\<rparr>)
   \<and> verifyToken (at_instant example_runtime 605799999)
         (Jwt ''k3y'' \<lparr>userId = JStr ''u1'', iat = 1000, exp = 605800\<rparr>)
       = Inr (Some \<lparr>userId = JStr ''u1'', iat = 1000, exp = 605800\<rparr>)
   \<and> verifyToken (at_instant example_runtime 605800000)
         (Jwt ''k3y'' \<lparr>userId = JStr ''u1'', iat = 1000, exp = 605800\<rparr>) = Inr None
   \<and> verifyToken (at_instant example_runtime 605800500)
         (Jwt ''k3y'' \<lparr>userId = JStr ''u1'', iat = 1000, exp = 605800\<rparr>) = Inr None"
proof -
  have m: "ms example_runtime (JWT_EXPIRES_IN example_runtime) = Some 604800000"
    by (simp add: example_defs JWT_EXPIRES_IN_def or_default_def)
  have k: "JWT_SECRET example_runtime = ''k3y''"
    by (simp add: example_defs JWT_SECRET_def or_default_def)
  from token_lifetime [OF m, of 1000500 "JStr ''u1''"]
  obtain p where gen: "generateToken (at_instant example_runtime 1000500) (JStr ''u1'')
        = Inr (Jwt ''k3y'' p)"
    and p: "userId p = JStr ''u1''" "iat p = 1000" "exp p = 605800"
    and ok: "\<And>t. t < 1000 * exp p \<Longrightarrow>
        verifyToken (at_instant example_runtime t) (Jwt ''k3y'' p) = Inr (Some p)"
    and late: "\<And>t. 1000 * exp p \<le> t \<Longrightarrow>
        verifyToken (at_instant example_runtime t) (Jwt ''k3y'' p) = Inr None"
    unfolding k by auto
  from p have eq: "p = \<lparr>userId = JStr ''u1'', iat = 1000, exp = 605800\<rparr>" by simp
  from ok [of 605799999] late [of 605800000] late [of 605800500] gen m p show ?thesis
    unfolding eq by simp
qed

text \<open>
  C8, as stated, at a lifetime of one hour: the token lives 3600000 ms, the cookie that
  carries it 604800000 ms.
\<close>

theorem cookie_maxAge_counterexample:
  "generateToken hourly_runtime (JStr ''u1'')
     = Inr (Jwt ''k3y'' \<lparr>userId = JStr ''u1'', iat = 1000, exp = 4600\<rparr>)
   \<and> lifetime_ms (Jwt ''k3y'' \<lparr>userId = JStr ''u1'', iat = 1000, exp = 4600\<rparr>) = Some 3600000
   \<and> map (maxAge \<circ> options)
        (set_cookies (setTokenCookie hourly_runtime new_res
           (Jwt ''k3y'' \<lparr>userId = JStr ''u1'', iat = 1000, exp = 4600\<rparr>)))
      = [Some 604800000]
   \<and> map (maxAge \<circ> options)
        (set_cookies (setTokenCookie hourly_runtime new_res
           (Jwt ''k3y'' \<lparr>userId = JStr ''u1'', iat = 1000, exp = 4600\<rparr>)))
      \<noteq> [lifetime_ms (Jwt ''k3y'' \<lparr>userId = JStr ''u1'', iat = 1000, exp = 4600\<rparr>)]"
  by (simp add: example_defs jwt_defs lifetime_ms_def setTokenCookie_def res_cookie_def new_res_def)

text \<open>
  C8, amended. \<open>setTokenCookie\<close> adds one cookie named \<open>token\<close> that holds the token,
  with httpOnly true, secure exactly when \<open>NODE_ENV\<close> is \<open>production\<close>, sameSite
  strict, path \<open>/\<close> and a maxAge of 604800000 ms (seven days) whatever the configured
  lifetime; that is the lifetime of the token when \<open>JWT_EXPIRES_IN\<close> is the default
  \<open>7d\<close>.
\<close>

theorem setTokenCookie_attributes:
  "setTokenCookie w r t =
     r\<lparr>set_cookies := set_cookies r @
        [\<lparr>cookie_name = ''token'', cookie_value = t,
          options = \<lparr>httpOnly = True, secure = (env_NODE_ENV w = Some ''production''),
                     sameSite = ''strict'', maxAge = Some 604800000, expires = None,
                     path = ''/''\<rparr>\<rparr>]\<rparr>
   \<and> (JWT_EXPIRES_IN w = ''7d'' \<and> ms w ''7d'' = Some 604800000 \<longrightarrow>
        (\<exists>t'. generateToken w uid = Inr t' \<and> lifetime_ms t' = Some 604800000))"
  by (simp add: setTokenCookie_def res_cookie_def generateToken_def jwt_sign_def lifetime_ms_def)

theorem setTokenCookie_attributes_witness:
  "JWT_EXPIRES_IN example_runtime = ''7d''
   \<and> ms example_runtime ''7d'' = Some 604800000
   \<and> secure (options (last (set_cookies (setTokenCookie example_runtime new_res example_token))))
   \<and> (\<exists>t'. generateToken example_runtime (JStr ''u1'') = Inr t' \<and> lifetime_ms t' = Some 604800000)"
  using setTokenCookie_attributes [of example_runtime new_res example_token "JStr ''u1''"]
  by (simp add: example_defs JWT_EXPIRES_IN_def or_default_def)

section \<open>The middleware\<close>

text \<open>
  C3. The middleware checks in this order. Without a token cookie it answers 401,
  whatever else holds. With a token that does not verify it answers 401, whatever the
  table holds. With a verified token whose user id is in no row it answers 401. With
  a verified token whose user id is in a row it sends nothing, sets \<open>req.user\<close> to
  the id, name, email and createdAt of that row and calls \<open>next()\<close>. In every case it
  either calls \<open>next()\<close> and sends nothing, or sends exactly one reply and stops.
\<close>

theorem authenticate_order:
  "(no_token (req_token req) \<longrightarrow>
      authenticate w d req r = deny 401 ''Authentication required. Please sign in.'' req r)
   \<and> (req_token req = Some t \<and> \<not> no_token (Some t) \<and> verifyToken w t = Inr None \<longrightarrow>
      authenticate w d req r = deny 401 ''Invalid or expired token. Please sign in again.'' req r)
   \<and> (req_token req = Some t \<and> \<not> no_token (Some t) \<and> verifyToken w t = Inr (Some dcd)
        \<and> userId dcd = JStr i \<and> reachable d \<and> find (\<lambda>u. user_id u = i) (users d) = None \<longrightarrow>
      authenticate w d req r = deny 401 ''User not found. Please sign in again.'' req r)
   \<and> (req_token req = Some t \<and> \<not> no_token (Some t) \<and> verifyToken w t = Inr (Some dcd)
        \<and> userId dcd = JStr i \<and> reachable d \<and> find (\<lambda>u. user_id u = i) (users d) = Some row \<longrightarrow>
      authenticate w d req r =
        \<lparr>mw_req = req\<lparr>req_user := Some
            [(''id'', JStr (user_id row)), (''name'', JStr (user_name row)),
             (''email'', JStr (user_email row)), (''createdAt'', JStr (user_createdAt row))]\<rparr>,
         mw_res = r, mw_next = True\<rparr>)
   \<and> (if mw_next (authenticate w d req r)
       then sent (mw_res (authenticate w d req r)) = sent r
       else \<exists>rsp. sent (mw_res (authenticate w d req r)) = sent r @ [rsp])"
  by (auto simp: authenticate_def findUnique_ById select_user_obj no_token_def
           split: option.splits sum.splits token.splits)

theorem authenticate_order_witness:
  "no_token (req_token (example_request None None Absent))
   \<and> authenticate example_runtime example_db (example_request None None Absent) new_res
       = deny 401 ''Authentication required. Please sign in.'' (example_request None None Absent) new_res
   \<and> verifyToken example_runtime (Jwt ''forged'' \<lparr>userId = JStr ''u1'', iat = 900, exp = 604900\<rparr>) = Inr None
   \<and> sent (mw_res (authenticate example_runtime example_db
        ((example_request None None Absent)
           \<lparr>req_token := Some (Jwt ''forged'' \<lparr>userId = JStr ''u1'', iat = 900, exp = 604900\<rparr>)\<rparr>) new_res))
       = [\<lparr>status = 401, body = [(''success'', JBool False),
            (''message'', JStr ''Invalid or expired token. Please sign in again.'')]\<rparr>]
   \<and> find (\<lambda>u. user_id u = ''u9'') (users example_db) = None
   \<and> sent (mw_res (authenticate example_runtime example_db
        ((example_request None None Absent)
           \<lparr>req_token := Some (Jwt ''k3y'' \<lparr>userId = JStr ''u9'', iat = 900, exp = 604900\<rparr>)\<rparr>) new_res))
       = [\<lparr>status = 401, body = [(''success'', JBool False),
            (''message'', JStr ''User not found. Please sign in again.'')]\<rparr>]
   \<and> verifyToken example_runtime example_token = Inr (Some \<lparr>userId = JStr ''u1'', iat = 900, exp = 604900\<rparr>)
   \<and> mw_next (authenticate example_runtime example_db
        ((example_request None None Absent)\<lparr>req_token := Some example_token\<rparr>) new_res)
   \<and> req_user (mw_req (authenticate example_runtime example_db
        ((example_request None None Absent)\<lparr>req_token := Some example_token\<rparr>) new_res))
       = Some [(''id'', JStr ''u1''), (''name'', JStr ''John''),
               (''email'', JStr ''john@example.com''), (''createdAt'', JStr ''2024-04-01T09:00:00.000Z'')]"
  using
    authenticate_order [where req = "example_request None None Absent" and w = example_runtime
      and d = example_db and r = new_res]
    authenticate_order [where req = "(example_request None None Absent)
           \<lparr>req_token := Some (Jwt ''forged'' \<lparr>userId = JStr ''u1'', iat = 900, exp = 604900\<rparr>)\<rparr>"
      and w = example_runtime and d = example_db and r = new_res
      and t = "Jwt ''forged'' \<lparr>userId = JStr ''u1'', iat = 900, exp = 604900\<rparr>"]
    authenticate_order [where req = "(example_request None None Absent)
           \<lparr>req_token := Some (Jwt ''k3y'' \<lparr>userId = JStr ''u9'', iat = 900, exp = 604900\<rparr>)\<rparr>"
      and w = example_runtime and d = example_db and r = new_res
      and t = "Jwt ''k3y'' \<lparr>userId = JStr ''u9'', iat = 900, exp = 604900\<rparr>"
      and dcd = "\<lparr>userId = JStr ''u9'', iat = 900, exp = 604900\<rparr>" and i = "''u9''"]
    authenticate_order [where req = "(example_request None None Absent)\<lparr>req_token := Some example_token\<rparr>"
      and w = example_runtime and d = example_db and r = new_res
      and t = example_token
      and dcd = "\<lparr>userId = JStr ''u1'', iat = 900, exp = 604900\<rparr>" and i = "''u1''"
      and row = "hd (users example_db)"]
  by (simp add: example_defs jwt_defs no_token_def new_res_def)

section \<open>The controllers\<close>

lemma create_selected:
  "create w d n e p (Some user_select) = Inr (d', u) \<Longrightarrow> map fst u = user_select"
  by (auto simp: create_def select_user_obj Let_def split: if_splits) (simp add: user_select_def)

lemma reply_ok_plain [simp]:
  "reply_ok \<lparr>status = c, body = [(''success'', JBool b), (''message'', m)]\<rparr>
     = (b = (200 \<le> c \<and> c < 300))"
  by (auto simp add: reply_ok_def flag_agrees_def)

lemma reply_ok_user [simp]:
  "reply_ok \<lparr>status = c, body = [(''success'', JBool b), (''message'', m), (''user'', JObj u)]\<rparr>
     = (b = (200 \<le> c \<and> c < 300) \<and> map fst u = user_select)"
  by (auto simp add: reply_ok_def flag_agrees_def is_projection_def)

lemma reply_ok_errors [simp]:
  "reply_ok \<lparr>status = c, body = [(''success'', JBool b), (''message'', m), (''errors'', es)]\<rparr>
     = (b = (200 \<le> c \<and> c < 300))"
  by (auto simp add: reply_ok_def flag_agrees_def)

lemma signUp_reply:
  "list_all reply_ok (sent r) \<Longrightarrow> list_all reply_ok (sent (snd (signUp w d req r)))"
  by (auto simp: signUp_def dest: create_selected
           split: option.splits sum.splits prod.splits)

lemma signIn_reply:
  "list_all reply_ok (sent r) \<Longrightarrow> list_all reply_ok (sent (signIn w d req r))"
  by (auto simp: signIn_def user_select_def split: option.splits sum.splits prod.splits)

lemma signOut_reply:
  "list_all reply_ok (sent r) \<Longrightarrow> list_all reply_ok (sent (signOut w req r))"
  by (simp add: signOut_def)

lemma checkValidation_reply:
  "list_all reply_ok (sent r) \<Longrightarrow> list_all reply_ok (sent (fst (checkValidation errs r)))"
  by (simp add: checkValidation_def)

lemma authenticate_reply:
  "list_all reply_ok (sent r) \<Longrightarrow> list_all reply_ok (sent (mw_res (authenticate w d req r)))"
  by (auto simp: authenticate_def split: option.splits sum.splits)

lemma authenticate_user:
  "mw_next (authenticate w d req r) \<Longrightarrow>
     \<exists>u. req_user (mw_req (authenticate w d req r)) = Some u \<and> map fst u = user_select"
  by (auto simp: authenticate_def dest: findUnique_selected split: option.splits sum.splits if_splits)

lemma post_signup_reply:
  "list_all reply_ok (sent r) \<Longrightarrow> list_all reply_ok (sent (snd (post_signup w d req r)))"
  using checkValidation_reply [of r "snd (validateSignUp w (req_body req))"]
  by (auto simp: post_signup_def signUp_reply split: prod.splits)

lemma post_signin_reply:
  "list_all reply_ok (sent r) \<Longrightarrow> list_all reply_ok (sent (post_signin w d req r))"
  using checkValidation_reply [of r "snd (validateSignIn w (req_body req))"]
  by (auto simp: post_signin_def signIn_reply split: prod.splits)

lemma post_signout_reply:
  "list_all reply_ok (sent r) \<Longrightarrow> list_all reply_ok (sent (post_signout w d req r))"
  by (simp add: post_signout_def Let_def signOut_reply authenticate_reply)

lemma findUnique_ByEmail:
  "findUnique d (ByEmail (JStr e)) sel =
     (if reachable d
      then Inr (map_option (select_fields sel \<circ> user_obj) (find (\<lambda>u. user_email u = e) (users d)))
      else Inl PrismaClientInitializationError)"
  by (simp add: findUnique_def)

lemma password_of_row [simp]: "get_prop (user_obj u) ''password'' = JStr (user_password u)"
  by (simp add: get_prop_def user_obj_def)

text \<open>
  With a string as the password, a sign-in with an address that no row has and a sign-in
  with the address of a row and a password that bcrypt does not accept for its hash get
  the same response: status 401, the body
  \<open>{success: false, message: 'Invalid email or password'}\<close>, no cookie.
\<close>

lemma signIn_string_passwords_same_reply:
  assumes "email (req_body req1) = Some e1" and "password (req_body req1) = Str p1"
      and "e1 \<noteq> []" and "p1 \<noteq> []"
      and "email (req_body req2) = Some e2" and "password (req_body req2) = Str p2"
      and "e2 \<noteq> []" and "p2 \<noteq> []"
      and "reachable d"
      and "find (\<lambda>u. user_email u = e1) (users d) = None"
      and "find (\<lambda>u. user_email u = e2) (users d) = Some row"
      and "bcrypt_compare w p2 (user_password row) = Inr False"
  shows "signIn w d req1 new_res = signIn w d req2 new_res
       \<and> signIn w d req2 new_res =
           \<lparr>sent = [\<lparr>status = 401,
                     body = [(''success'', JBool False),
                             (''message'', JStr ''Invalid email or password'')]\<rparr>],
            set_cookies = []\<rparr>"
  using assms
  by (simp add: signIn_def findUnique_ByEmail select_fields_def compare_password_def
                no_password_def status_json_def new_res_def)

text \<open>
  With a truthy value that is no string as the password, the reply depends on whether
  the address is registered: \<open>bcrypt.compare\<close> is reached for the address of a row
  only, and throws.
\<close>

lemma signIn_nonstring_password:
  assumes "email (req_body req) = Some e" and "e \<noteq> []"
      and "password (req_body req) = NonString v" and "ns_truthy v"
      and "reachable d"
  shows "find (\<lambda>u. user_email u = e) (users d) = Some row \<Longrightarrow>
           signIn w d req r = internal_error r"
    and "find (\<lambda>u. user_email u = e) (users d) = None \<Longrightarrow>
           signIn w d req r =
             status_json 401
               [(''success'', JBool False), (''message'', JStr ''Invalid email or password'')] r"
  using assms
  by (simp_all add: signIn_def findUnique_ByEmail select_fields_def compare_password_def
        no_password_def)

text \<open>
  C2. Two sign-ins through the route with the JSON number 1234567 as the password, which
  the route's \<open>notEmpty()\<close> lets pass. For \<open>john@example.com\<close>, the address of a
  row, \<open>bcrypt.compare\<close> throws on the number and the reply is 500 with
  \<open>Internal server error\<close>; for \<open>nobody@example.com\<close>, which no row has, the reply
  is 401 with \<open>Invalid email or password\<close>. The password matches the hash in neither
  case, and the two replies differ in status and body.
\<close>

theorem signIn_number_password_reveals_address:
  "post_signin example_runtime example_db
      (example_request None (Some ''john@example.com'') number_1234567) new_res
     = \<lparr>sent = [\<lparr>status = 500,
                  body = [(''success'', JBool False),
                          (''message'', JStr ''Internal server error'')]\<rparr>],
         set_cookies = []\<rparr>
   \<and> post_signin example_runtime example_db
      (example_request None (Some ''nobody@example.com'') number_1234567) new_res
     = \<lparr>sent = [\<lparr>status = 401,
                  body = [(''success'', JBool False),
                          (''message'', JStr ''Invalid email or password'')]\<rparr>],
         set_cookies = []\<rparr>"
  by (simp add: post_signin_def validateSignIn_def checkValidation_def failing_def
        notEmpty_password_def str_of_def trim_def is_space_def to_lower_def
        signIn_def findUnique_ByEmail select_fields_def compare_password_def no_password_def
        internal_error_def status_json_def new_res_def example_defs)

lemma signUp_phases:
  "signUp w d req r = signUp_resume w d (signUp_lookup w d req r) r"
  by (simp add: signUp_def signUp_lookup_def signUp_resume_def signUp_insert_def
           split: option.splits sum.splits prod.splits)


lemma projection_no_password: "is_projection v \<Longrightarrow> password_of v = JUndefined"
proof (cases v)
  case (JObj ob)
  assume "is_projection v"
  with JObj have keys: "map fst ob = user_select" by (simp add: is_projection_def)
  have "''password'' \<notin> set (map fst ob)" unfolding keys by (simp add: user_select_def)
  then have "map_of ob ''password'' = None" by (simp add: map_of_eq_None_iff)
  with JObj show ?thesis by (simp add: password_of_def get_prop_def)
qed (simp_all add: password_of_def)

lemma users_of_replies:
  "list_all reply_ok xs \<Longrightarrow>
     list_all (\<lambda>v. is_projection v \<and> password_of v = JUndefined)
       (concat (map (\<lambda>rsp. case map_of (body rsp) ''user'' of None \<Rightarrow> [] | Some v \<Rightarrow> [v]) xs))"
  by (induction xs) (auto simp: reply_ok_def projection_no_password split: option.splits)

lemma users_sent_ok:
  "list_all reply_ok (sent r) \<Longrightarrow>
     list_all (\<lambda>v. is_projection v \<and> password_of v = JUndefined) (users_sent r)"
  unfolding users_sent_def by (rule users_of_replies)

lemma flags_of_replies: "list_all reply_ok xs \<Longrightarrow> list_all flag_agrees xs"
  by (induction xs) (auto simp: reply_ok_def)

lemma fresh_ok [simp]: "list_all reply_ok (sent new_res)"
  by (simp add: new_res_def)

text \<open>
  C1. Every \<open>user\<close> that a sign-up or sign-in response carries, from the controller
  alone or behind the route's validation, is an object with exactly the keys id, name,
  email and createdAt and has no \<open>password\<close>; and whenever the middleware lets a
  request through, the \<open>req.user\<close> it has set is such an object.
\<close>

theorem password_never_sent:
  "list_all (\<lambda>v. is_projection v \<and> password_of v = JUndefined)
     (users_sent (snd (signUp w d req new_res)))
   \<and> list_all (\<lambda>v. is_projection v \<and> password_of v = JUndefined)
     (users_sent (signIn w d req new_res))
   \<and> list_all (\<lambda>v. is_projection v \<and> password_of v = JUndefined)
     (users_sent (snd (post_signup w d req new_res)))
   \<and> list_all (\<lambda>v. is_projection v \<and> password_of v = JUndefined)
     (users_sent (post_signin w d req new_res))
   \<and> (mw_next (authenticate w d req r) \<longrightarrow>
        (\<exists>u. req_user (mw_req (authenticate w d req r)) = Some u
             \<and> is_projection (JObj u) \<and> password_of (JObj u) = JUndefined))"
proof -
  have "mw_next (authenticate w d req r) \<Longrightarrow>
        \<exists>u. req_user (mw_req (authenticate w d req r)) = Some u
             \<and> is_projection (JObj u) \<and> password_of (JObj u) = JUndefined"
    using authenticate_user [of w d req r] projection_no_password
    by (fastforce simp: is_projection_def)
  then show ?thesis
    by (simp add: users_sent_ok signUp_reply signIn_reply post_signup_reply post_signin_reply)
qed

theorem password_never_sent_witness:
  "users_sent (signIn example_runtime example_db
      (example_request None (Some ''john@example.com'') (Str ''secret1'')) new_res)
     = [JObj [(''id'', JStr ''u1''), (''name'', JStr ''John''),
              (''email'', JStr ''john@example.com''),
              (''createdAt'', JStr ''2024-04-01T09:00:00.000Z'')]]
   \<and> mw_next (authenticate example_runtime example_db
        ((example_request None None Absent)\<lparr>req_token := Some example_token\<rparr>) new_res)
   \<and> (\<exists>u. req_user (mw_req (authenticate example_runtime example_db
              ((example_request None None Absent)\<lparr>req_token := Some example_token\<rparr>) new_res)) = Some u
          \<and> is_projection (JObj u) \<and> password_of (JObj u) = JUndefined)"
proof -
  have n: "mw_next (authenticate example_runtime example_db
        ((example_request None None Absent)\<lparr>req_token := Some example_token\<rparr>) new_res)"
    by (simp add: authenticate_def example_defs jwt_defs no_token_def findUnique_ById)
  have s: "users_sent (signIn example_runtime example_db
      (example_request None (Some ''john@example.com'') (Str ''secret1'')) new_res)
     = [JObj [(''id'', JStr ''u1''), (''name'', JStr ''John''),
              (''email'', JStr ''john@example.com''),
              (''createdAt'', JStr ''2024-04-01T09:00:00.000Z'')]]"
    by (simp add: signIn_def example_defs jwt_defs findUnique_ByEmail select_fields_def
          compare_password_def users_sent_def new_res_def get_prop_def user_obj_def)
  from password_never_sent [of example_runtime example_db
      "(example_request None None Absent)\<lparr>req_token := Some example_token\<rparr>" new_res] n s
  show ?thesis by blast
qed

lemma signUp_one_reply: "length (sent (snd (signUp w d req r))) = Suc (length (sent r))"
  by (simp add: signUp_def split: option.splits sum.splits prod.splits)

lemma signIn_one_reply: "length (sent (signIn w d req r)) = Suc (length (sent r))"
  by (simp add: signIn_def split: option.splits sum.splits prod.splits)

lemma signOut_one_reply: "length (sent (signOut w req r)) = Suc (length (sent r))"
  by (simp add: signOut_def)

text \<open>
  C10. In every reply of the three controllers, of the validation helper, of the
  middleware and of the three routes built from them, the \<open>success\<close> field is the
  boolean that is true exactly when the status is in the 2xx range; each controller
  sends exactly one reply.
\<close>

theorem success_flag_agrees_with_status:
  "list_all flag_agrees (sent (snd (signUp w d req new_res)))
   \<and> list_all flag_agrees (sent (signIn w d req new_res))
   \<and> list_all flag_agrees (sent (signOut w req new_res))
   \<and> list_all flag_agrees (sent (fst (checkValidation errs new_res)))
   \<and> list_all flag_agrees (sent (mw_res (authenticate w d req new_res)))
   \<and> list_all flag_agrees (sent (snd (post_signup w d req new_res)))
   \<and> list_all flag_agrees (sent (post_signin w d req new_res))
   \<and> list_all flag_agrees (sent (post_signout w d req new_res))
   \<and> length (sent (snd (signUp w d req new_res))) = 1
   \<and> length (sent (signIn w d req new_res)) = 1
   \<and> length (sent (signOut w req new_res)) = 1"
  by (simp add: flags_of_replies signUp_reply signIn_reply signOut_reply checkValidation_reply
        authenticate_reply post_signup_reply post_signin_reply post_signout_reply
        signUp_one_reply signIn_one_reply signOut_one_reply new_res_def)

section \<open>Duplicate addresses\<close>

lemma signUp_duplicate_rejected:
  assumes "name (req_body req) = Some n" and "email (req_body req) = Some e"
      and "n \<noteq> []" and "e \<noteq> []"
      and "\<not> no_password (password (req_body req))"
      and "\<not> short_password (password (req_body req))"
      and "reachable d" and "find (\<lambda>u. user_email u = e) (users d) = Some row"
  shows "signUp w d req r =
           (d, status_json 400
                 [(''success'', JBool False), (''message'', JStr ''Email already registered'')] r)"
  using assms by (auto simp: signUp_def findUnique_ByEmail)

text \<open>
  Whatever the two requests are: when both carry the same unregistered address and both
  lookups are answered before the first insert, the first row is inserted and the second
  request is answered 500.
\<close>

lemma find_snoc:
  "find P (xs @ [x]) = (case find P xs of Some y \<Rightarrow> Some y | None \<Rightarrow> if P x then Some x else None)"
  by (induction xs) simp_all

lemma signUp_overlapped_loser:
  assumes "name (req_body req1) = Some n1" and "email (req_body req1) = Some e"
      and "password (req_body req1) = Str p1" and "n1 \<noteq> []" and "e \<noteq> []" and "6 \<le> length p1"
      and "name (req_body req2) = Some n2" and "email (req_body req2) = Some e"
      and "\<not> no_password (password (req_body req2))" and "n2 \<noteq> []"
      and "\<not> short_password (password (req_body req2))"
      and "reachable d" and "find (\<lambda>u. user_email u = e) (users d) = None"
      and "find (\<lambda>u. user_id u = next_id w1) (users d) = None"
      and "bcrypt_hash w1 p1 10 = Inr h1"
      and "signUp_overlapped w1 w2 d req1 req2 = (d', r1, r2)"
  shows "users d' = users d @
           [\<lparr>user_id = next_id w1, user_name = n1, user_email = e, user_password = h1,
             user_createdAt = next_createdAt w1\<rparr>]
       \<and> sent r2 = [\<lparr>status = 500,
                      body = [(''success'', JBool False), (''message'', JStr ''Internal server error'')]\<rparr>]"
  using assms
  by (auto simp: signUp_overlapped_def signUp_lookup_def signUp_resume_def signUp_insert_def
        findUnique_ByEmail create_def hash_password_def Let_def new_res_def find_snoc
        split: sum.splits if_splits)

text \<open>
  C6. Two sign-ups for the address \<open>a@x.com\<close>, which no row has, whose lookups are
  both answered before either inserts: the first gets 201 and its row, the insert of the
  second is refused by the unique index, and the second gets 500 with
  \<open>Internal server error\<close>, not 400 with \<open>Email already registered\<close>.
\<close>

theorem signUp_overlapped_second_gets_500:
  "signUp_overlapped example_runtime (example_runtime\<lparr>next_id := ''u3''\<rparr>) example_db
     (example_request (Some ''Ann'') (Some ''a@x.com'') (Str ''secret1''))
     (example_request (Some ''Bob'') (Some ''a@x.com'') (Str ''hunter22''))
   = (example_db\<lparr>users := users example_db @
        [\<lparr>user_id = ''u2'', user_name = ''Ann'', user_email = ''a@x.com'',
          user_password = ''$2a$secret1'', user_createdAt = ''2024-05-01T10:00:00.000Z''\<rparr>]\<rparr>,
      \<lparr>sent = [\<lparr>status = 201,
                body = [(''success'', JBool True),
                        (''message'', JStr ''User created successfully''),
                        (''user'', JObj [(''id'', JStr ''u2''), (''name'', JStr ''Ann''),
                                         (''email'', JStr ''a@x.com''),
                                         (''createdAt'', JStr ''2024-05-01T10:00:00.000Z'')])]\<rparr>],
       set_cookies = [\<lparr>cookie_name = ''token'',
                        cookie_value = Jwt ''k3y'' \<lparr>userId = JStr ''u2'', iat = 1000, exp = 605800\<rparr>,
                        options = \<lparr>httpOnly = True, secure = True, sameSite = ''strict'',
                                   maxAge = Some 604800000, expires = None, path = ''/''\<rparr>\<rparr>]\<rparr>,
      \<lparr>sent = [\<lparr>status = 500,
                body = [(''success'', JBool False),
                        (''message'', JStr ''Internal server error'')]\<rparr>],
       set_cookies = []\<rparr>)"
  by (simp add: signUp_overlapped_def signUp_lookup_def signUp_resume_def signUp_insert_def
        findUnique_ByEmail create_def hash_password_def example_defs jwt_defs select_fields_def user_obj_def
        user_select_def get_prop_def setTokenCookie_def res_cookie_def status_json_def
        internal_error_def new_res_def Let_def)

section \<open>Validation of a sign-up\<close>

text \<open>
  C7, as stated, at the name \<open>A\<close>: all three fields are there and the password has
  seven characters, and the route turns the request down with 400.
\<close>

theorem signup_route_rejects_short_name:
  "rejects_fields (snd (post_signup example_runtime example_db
      (example_request (Some ''A'') (Some ''a@x.com'') (Str ''secret1'')) new_res))
   \<and> \<not> falsy (Some ''A'') \<and> \<not> falsy (Some ''a@x.com'') \<and> \<not> no_password (Str ''secret1'')
   \<and> \<not> short_password (Str ''secret1'')"
  by (simp add: post_signup_def validateSignUp_def checkValidation_def failing_def trim_def
        is_space_def str_of_def falsy_def rejects_fields_def get_prop_def example_defs to_lower_def
        new_res_def)

lemma message_simps [simp]:
  "get_prop ((''success'', s) # (''message'', m) # rest) ''message'' = m"
  by (simp add: get_prop_def)

lemma signUp_rejects_iff:
  "rejects_fields (snd (signUp w d req new_res)) \<longleftrightarrow>
     falsy (name (req_body req)) \<or> falsy (email (req_body req)) \<or> no_password (password (req_body req))
     \<or> short_password (password (req_body req))"
  by (auto simp: signUp_def rejects_fields_def falsy_def str_of_def new_res_def
           internal_error_def status_json_def
           split: option.splits sum.splits prod.splits)

lemma signUp_proceeds:
  "\<not> (falsy (name (req_body req)) \<or> falsy (email (req_body req))
      \<or> no_password (password (req_body req)) \<or> short_password (password (req_body req))) \<Longrightarrow>
   signUp w d req r =
     (case findUnique d (ByEmail (JStr (str_of (email (req_body req))))) None of
        Inl err \<Rightarrow> (d, internal_error r)
      | Inr (Some existingUser) \<Rightarrow>
          (d, status_json 400
                [(''success'', JBool False), (''message'', JStr ''Email already registered'')] r)
      | Inr None \<Rightarrow>
          signUp_insert w d
            (str_of (name (req_body req)), str_of (email (req_body req)),
             password (req_body req)) r)"
  by (auto simp: signUp_def signUp_insert_def falsy_def str_of_def
           split: option.splits sum.splits prod.splits)

lemma validateSignUp_errors:
  "snd (validateSignUp w b) = [] \<longleftrightarrow>
     2 \<le> length (trim (str_of (name b))) \<and> length (trim (str_of (name b))) \<le> 50
     \<and> isEmail w (trim (str_of (email b))) \<and> trim (str_of (email b)) \<noteq> []
     \<and> notEmpty_password (password b) \<and> isLength6_password (password b)"
  by (auto simp: validateSignUp_def failing_def Let_def)

lemma post_signup_cases:
  "post_signup w d req r =
     (if snd (validateSignUp w (req_body req)) = []
      then signUp w d (req\<lparr>req_body := fst (validateSignUp w (req_body req))\<rparr>) r
      else (d, status_json 400
             [(''success'', JBool False),
              (''message'', JStr ''Validation failed''),
              (''errors'', JArr (map (\<lambda>err. JObj [(''field'', JStr (fst err)), (''message'', JStr (snd err))])
                                   (snd (validateSignUp w (req_body req)))))] r))"
  by (simp add: post_signup_def checkValidation_def split: prod.splits)

text \<open>
  C7, amended. The controller turns a sign-up down for its fields exactly when the name,
  the email or the password is missing or empty or the password has fewer than 6
  characters, and otherwise goes on to look the address up: a failing lookup gives 500,
  a row with the address 400 \<open>Email already registered\<close>, no row the insert. The
  route's validation, which runs before the controller, passes exactly when the trimmed
  name has 2 to 50 characters, the trimmed email is a non-empty valid address and the
  password has at least 6 characters; it answers 400 \<open>Validation failed\<close> with the
  list of errors when it does not pass, and hands the sanitized body to the controller
  when it does. For a password that is no string, missing or empty reads as falsy and
  fewer than 6 characters as a \<open>.length\<close> below 6 in the controller, and as the
  verdicts of \<open>notEmpty()\<close> and \<open>isLength({ min: 6 })\<close> in the route.
\<close>

theorem signUp_validation:
  "(rejects_fields (snd (signUp w d req new_res)) \<longleftrightarrow>
      falsy (name (req_body req)) \<or> falsy (email (req_body req))
      \<or> no_password (password (req_body req)) \<or> short_password (password (req_body req)))
   \<and> (\<not> (falsy (name (req_body req)) \<or> falsy (email (req_body req))
           \<or> no_password (password (req_body req))
           \<or> short_password (password (req_body req))) \<longrightarrow>
        signUp w d req r =
          (case findUnique d (ByEmail (JStr (str_of (email (req_body req))))) None of
             Inl err \<Rightarrow> (d, internal_error r)
           | Inr (Some existingUser) \<Rightarrow>
               (d, status_json 400
                     [(''success'', JBool False), (''message'', JStr ''Email already registered'')] r)
           | Inr None \<Rightarrow>
               signUp_insert w d
                 (str_of (name (req_body req)), str_of (email (req_body req)),
                  password (req_body req)) r))
   \<and> (snd (validateSignUp w (req_body req)) = [] \<longleftrightarrow>
        2 \<le> length (trim (str_of (name (req_body req))))
        \<and> length (trim (str_of (name (req_body req)))) \<le> 50
        \<and> isEmail w (trim (str_of (email (req_body req))))
        \<and> trim (str_of (email (req_body req))) \<noteq> []
        \<and> notEmpty_password (password (req_body req))
        \<and> isLength6_password (password (req_body req)))
   \<and> post_signup w d req r =
        (if snd (validateSignUp w (req_body req)) = []
         then signUp w d (req\<lparr>req_body := fst (validateSignUp w (req_body req))\<rparr>) r
         else (d, status_json 400
                [(''success'', JBool False),
                 (''message'', JStr ''Validation failed''),
                 (''errors'', JArr (map (\<lambda>err. JObj [(''field'', JStr (fst err)), (''message'', JStr (snd err))])
                                      (snd (validateSignUp w (req_body req)))))] r))"
  using signUp_rejects_iff [of w d req] signUp_proceeds [of req w d r]
    validateSignUp_errors [of w "req_body req"] post_signup_cases [of w d req r]
  by blast

theorem signUp_validation_witness:
  "\<not> (falsy (Some ''Ann'') \<or> falsy (Some ''a@x.com'') \<or> no_password (Str ''secret1'')
        \<or> short_password (Str ''secret1''))
   \<and> snd (validateSignUp example_runtime \<lparr>name = Some ''Ann'', email = Some ''a@x.com'', password = Str ''secret1''\<rparr>) = []
   \<and> \<not> rejects_fields (snd (signUp example_runtime example_db
          (example_request (Some ''Ann'') (Some ''a@x.com'') (Str ''secret1'')) new_res))
   \<and> rejects_fields (snd (signUp example_runtime example_db
          (example_request (Some ''Ann'') (Some ''a@x.com'') (Str ''secr'')) new_res))
   \<and> post_signup example_runtime example_db
          (example_request (Some ''Ann'') (Some ''a@x.com'') (Str ''secret1'')) new_res
      = signUp_insert example_runtime example_db (''Ann'', ''a@x.com'', Str ''secret1'') new_res"
proof -
  have e: "findUnique example_db (ByEmail (JStr ''a@x.com'')) None = Inr None"
    by (simp add: findUnique_ByEmail example_db_def)
  have v: "validateSignUp example_runtime \<lparr>name = Some ''Ann'', email = Some ''a@x.com'', password = Str ''secret1''\<rparr>
      = (\<lparr>name = Some ''Ann'', email = Some ''a@x.com'', password = Str ''secret1''\<rparr>, [])"
    by (simp add: validateSignUp_def failing_def str_of_def trim_def is_space_def
          example_runtime_def to_lower_def char_of_def)
  from signUp_validation [of example_runtime example_db
      "example_request (Some ''Ann'') (Some ''a@x.com'') (Str ''secret1'')" new_res]
    signUp_validation [of example_runtime example_db
      "example_request (Some ''Ann'') (Some ''a@x.com'') (Str ''secr'')" new_res]
    e v
  show ?thesis
    by (auto simp add: example_request_def falsy_def str_of_def)
qed

section \<open>White space and letter case of the address\<close>

lemma is_space_code: "is_space c \<longleftrightarrow> (of_char c :: nat) \<in> {9, 10, 11, 12, 13, 32}"
  unfolding is_space_def
  by (auto simp add: of_char_eq_iff [where ?'a = nat, symmetric] simp del: of_char_eq_iff)

lemma is_space_to_lower [simp]: "is_space (to_lower c) = is_space c"
  by (auto simp: is_space_code to_lower_def Let_def)

lemma trim_to_lower: "trim (map to_lower s) = map to_lower (trim s)"
proof -
  have comp: "is_space \<circ> to_lower = is_space" by (simp add: fun_eq_iff)
  show ?thesis
    by (simp add: trim_def dropWhile_map rev_map comp)
qed

lemma same_case_trim:
  assumes "map to_lower a = map to_lower b"
  shows "map to_lower (trim a) = map to_lower (trim b)"
  using assms by (simp add: trim_to_lower [symmetric])

lemma same_case_empty:
  assumes "map to_lower a = map to_lower b"
  shows "a = [] \<longleftrightarrow> b = []"
  using assms by (metis map_is_Nil_conv)

text \<open>
  Given that validator.js reads an address without regard to letter case, requests that
  differ only in the letter case of the email get the same response and leave the same
  table; and when the validation passes, the controller sees the trimmed and normalised
  address in place of the one sent.
\<close>

lemma same_case_same_reply:
  assumes lib: "\<And>a b. map to_lower a = map to_lower b \<Longrightarrow>
                  isEmail w a = isEmail w b \<and> normalizeEmail w a = normalizeEmail w b"
      and same: "map to_lower e1 = map to_lower e2"
  shows "post_signin w d (req\<lparr>req_body := (req_body req)\<lparr>email := Some e1\<rparr>\<rparr>) r
           = post_signin w d (req\<lparr>req_body := (req_body req)\<lparr>email := Some e2\<rparr>\<rparr>) r
       \<and> post_signup w d (req\<lparr>req_body := (req_body req)\<lparr>email := Some e1\<rparr>\<rparr>) r
           = post_signup w d (req\<lparr>req_body := (req_body req)\<lparr>email := Some e2\<rparr>\<rparr>) r
       \<and> (snd (validateSignIn w (req_body req)) = [] \<longrightarrow>
            post_signin w d req r =
              signIn w d (req\<lparr>req_body := (req_body req)
                 \<lparr>email := Some (normalizeEmail w (trim (str_of (email (req_body req)))))\<rparr>\<rparr>) r)
       \<and> (snd (validateSignUp w (req_body req)) = [] \<longrightarrow>
            post_signup w d req r =
              signUp w d (req\<lparr>req_body := (req_body req)
                 \<lparr>name := Some (trim (str_of (name (req_body req)))),
                  email := Some (normalizeEmail w (trim (str_of (email (req_body req)))))\<rparr>\<rparr>) r)"
proof -
  from same have t: "map to_lower (trim e1) = map to_lower (trim e2)" by (rule same_case_trim)
  from lib [OF t] have v: "isEmail w (trim e1) = isEmail w (trim e2)"
    and n: "normalizeEmail w (trim e1) = normalizeEmail w (trim e2)" by simp_all
  from t have z: "trim e1 = [] \<longleftrightarrow> trim e2 = []" by (rule same_case_empty)
  have "validateSignIn w ((req_body req)\<lparr>email := Some e1\<rparr>)
          = validateSignIn w ((req_body req)\<lparr>email := Some e2\<rparr>)"
    by (simp add: validateSignIn_def str_of_def Let_def v n z)
  moreover have "validateSignUp w ((req_body req)\<lparr>email := Some e1\<rparr>)
          = validateSignUp w ((req_body req)\<lparr>email := Some e2\<rparr>)"
    by (simp add: validateSignUp_def str_of_def Let_def v n z)
  moreover have "snd (validateSignIn w (req_body req)) = [] \<Longrightarrow>
            post_signin w d req r =
              signIn w d (req\<lparr>req_body := (req_body req)
                 \<lparr>email := Some (normalizeEmail w (trim (str_of (email (req_body req)))))\<rparr>\<rparr>) r"
    by (simp add: post_signin_def checkValidation_def validateSignIn_def Let_def split: prod.splits)
  moreover have "snd (validateSignUp w (req_body req)) = [] \<Longrightarrow>
            post_signup w d req r =
              signUp w d (req\<lparr>req_body := (req_body req)
                 \<lparr>name := Some (trim (str_of (name (req_body req)))),
                  email := Some (normalizeEmail w (trim (str_of (email (req_body req)))))\<rparr>\<rparr>) r"
    by (simp add: post_signup_def checkValidation_def validateSignUp_def Let_def split: prod.splits)
  ultimately show ?thesis
    by (simp add: post_signin_def post_signup_def split: prod.splits)
qed

lemma dropWhile_spaces:
  assumes "list_all is_space a" and "xs \<noteq> []" and "\<not> is_space (hd xs)"
  shows "dropWhile is_space (a @ xs) = xs"
proof -
  from assms(1) have "dropWhile is_space (a @ xs) = dropWhile is_space xs"
    by (simp add: dropWhile_append2 list_all_iff)
  also from assms(2,3) have "\<dots> = xs" by (cases xs) simp_all
  finally show ?thesis .
qed

lemma trim_padded:
  assumes "list_all is_space a" and "list_all is_space b"
      and "core \<noteq> []" and "\<not> is_space (hd core)" and "\<not> is_space (last core)"
  shows "trim (a @ core @ b) = core"
proof -
  have front: "dropWhile is_space (a @ core @ b) = core @ b"
    using assms(1,3,4) by (intro dropWhile_spaces) simp_all
  have "list_all is_space (rev b)" using assms(2) by (simp add: list_all_iff)
  moreover have "rev core \<noteq> []" and "\<not> is_space (hd (rev core))"
    using assms(3,5) by (simp_all add: hd_rev)
  ultimately have "dropWhile is_space (rev b @ rev core) = rev core"
    by (rule dropWhile_spaces)
  with front show ?thesis by (simp add: trim_def)
qed

lemma validateSignIn_padded:
  assumes "list_all is_space a" and "list_all is_space b"
      and "core \<noteq> []" and "\<not> is_space (hd core)" and "\<not> is_space (last core)"
      and "isEmail w core" and "normalizeEmail w core = map to_lower core"
      and "email bd = Some (a @ core @ b)"
  shows "validateSignIn w bd =
           (bd\<lparr>email := Some (map to_lower core)\<rparr>,
            failing (notEmpty_password (password bd)) ''password'' ''Password is required'')"
  using assms trim_padded [of a b core]
  by (simp add: validateSignIn_def str_of_def failing_def Let_def)

lemma validateSignUp_padded:
  assumes "list_all is_space a" and "list_all is_space b"
      and "core \<noteq> []" and "\<not> is_space (hd core)" and "\<not> is_space (last core)"
      and "isEmail w core" and "normalizeEmail w core = map to_lower core"
      and "email bd = Some (a @ core @ b)"
      and "2 \<le> length (trim (str_of (name bd)))" and "length (trim (str_of (name bd))) \<le> 50"
      and "notEmpty_password (password bd)" and "isLength6_password (password bd)"
  shows "validateSignUp w bd =
           (bd\<lparr>name := Some (trim (str_of (name bd))), email := Some (map to_lower core)\<rparr>, [])"
  using assms trim_padded [of a b core]
  by (auto simp add: validateSignUp_def str_of_def failing_def Let_def)

lemma signIn_found:
  assumes "email (req_body req) = Some e" and "e \<noteq> []"
      and "password (req_body req) = Str p" and "p \<noteq> []"
      and "reachable d" and "find (\<lambda>u. user_email u = e) (users d) = Some row"
  shows "bcrypt_compare w p (user_password row) = Inr False \<Longrightarrow>
           signIn w d req r =
             status_json 401
               [(''success'', JBool False), (''message'', JStr ''Invalid email or password'')] r"
    and "bcrypt_compare w p (user_password row) = Inr True \<Longrightarrow>
         generateToken w (JStr (user_id row)) = Inr t \<Longrightarrow>
           signIn w d req r =
             status_json 200
               [(''success'', JBool True),
                (''message'', JStr ''Signed in successfully''),
                (''user'', JObj
                   [(''id'', JStr (user_id row)),
                    (''name'', JStr (user_name row)),
                    (''email'', JStr (user_email row)),
                    (''createdAt'', JStr (user_createdAt row))])]
               (setTokenCookie w r t)"
  using assms
  by (simp_all add: signIn_def findUnique_ByEmail select_fields_def compare_password_def
        get_prop_def user_obj_def)

text \<open>
  C9. The route's validation runs before the controller and hands it the email trimmed
  and normalised. Take an email sent as an address with white space around it, where
  validator.js accepts the address and normalises it to its lower case. Then the sign-in
  and the sign-up controllers get the lower-case address in place of the one sent; and
  when a row of the table has that lower-case address, the sign-up is answered 400
  \<open>Email already registered\<close> and leaves the table as it is, and the sign-in is
  checked against that row: 401 for a password that bcrypt rejects, 200 with the user of
  that row and the token cookie for one that it accepts. Moreover, given that validator.js
  reads every address without regard to letter case, two requests that differ only in the
  letter case of the email get the same response and leave the same table.
\<close>

theorem email_is_trimmed_and_lowercased:
  "(list_all is_space a \<and> list_all is_space b
      \<and> core \<noteq> [] \<and> \<not> is_space (hd core) \<and> \<not> is_space (last core)
      \<and> isEmail w core \<and> normalizeEmail w core = map to_lower core
      \<and> email (req_body req) = Some (a @ core @ b) \<longrightarrow>
      (notEmpty_password (password (req_body req)) \<longrightarrow>
         post_signin w d req r =
           signIn w d (req\<lparr>req_body := (req_body req)\<lparr>email := Some (map to_lower core)\<rparr>\<rparr>) r)
      \<and> (2 \<le> length (trim (str_of (name (req_body req))))
           \<and> length (trim (str_of (name (req_body req)))) \<le> 50
           \<and> notEmpty_password (password (req_body req))
           \<and> isLength6_password (password (req_body req)) \<longrightarrow>
         post_signup w d req r =
           signUp w d (req\<lparr>req_body := (req_body req)
              \<lparr>name := Some (trim (str_of (name (req_body req)))),
               email := Some (map to_lower core)\<rparr>\<rparr>) r)
      \<and> (reachable d \<and> find (\<lambda>u. user_email u = map to_lower core) (users d) = Some row \<longrightarrow>
           (2 \<le> length (trim (str_of (name (req_body req))))
              \<and> length (trim (str_of (name (req_body req)))) \<le> 50
              \<and> password (req_body req) = Str p \<and> 6 \<le> length p \<longrightarrow>
            post_signup w d req r =
              (d, status_json 400
                    [(''success'', JBool False),
                     (''message'', JStr ''Email already registered'')] r))
         \<and> (password (req_body req) = Str p \<and> p \<noteq> []
              \<and> bcrypt_compare w p (user_password row) = Inr False \<longrightarrow>
            post_signin w d req r =
              status_json 401
                [(''success'', JBool False), (''message'', JStr ''Invalid email or password'')] r)
         \<and> (password (req_body req) = Str p \<and> p \<noteq> []
              \<and> bcrypt_compare w p (user_password row) = Inr True
              \<and> generateToken w (JStr (user_id row)) = Inr t \<longrightarrow>
            post_signin w d req r =
              status_json 200
                [(''success'', JBool True),
                 (''message'', JStr ''Signed in successfully''),
                 (''user'', JObj
                    [(''id'', JStr (user_id row)),
                     (''name'', JStr (user_name row)),
                     (''email'', JStr (user_email row)),
                     (''createdAt'', JStr (user_createdAt row))])]
                (setTokenCookie w r t))))
   \<and> ((\<forall>x y. map to_lower x = map to_lower y \<longrightarrow>
            isEmail w x = isEmail w y \<and> normalizeEmail w x = normalizeEmail w y)
        \<and> map to_lower e1 = map to_lower e2 \<longrightarrow>
        post_signin w d (req\<lparr>req_body := (req_body req)\<lparr>email := Some e1\<rparr>\<rparr>) r
          = post_signin w d (req\<lparr>req_body := (req_body req)\<lparr>email := Some e2\<rparr>\<rparr>) r
        \<and> post_signup w d (req\<lparr>req_body := (req_body req)\<lparr>email := Some e1\<rparr>\<rparr>) r
          = post_signup w d (req\<lparr>req_body := (req_body req)\<lparr>email := Some e2\<rparr>\<rparr>) r)"
proof (intro conjI impI)
  assume h: "list_all is_space a \<and> list_all is_space b
      \<and> core \<noteq> [] \<and> \<not> is_space (hd core) \<and> \<not> is_space (last core)
      \<and> isEmail w core \<and> normalizeEmail w core = map to_lower core
      \<and> email (req_body req) = Some (a @ core @ b)"
  then have vin: "validateSignIn w (req_body req) =
           ((req_body req)\<lparr>email := Some (map to_lower core)\<rparr>,
            failing (notEmpty_password (password (req_body req))) ''password'' ''Password is required'')"
    by (intro validateSignIn_padded [of a b]) simp_all
  have lc: "map to_lower core \<noteq> []" using h by simp
  let ?in = "req\<lparr>req_body := (req_body req)\<lparr>email := Some (map to_lower core)\<rparr>\<rparr>"
  let ?up = "req\<lparr>req_body := (req_body req)
              \<lparr>name := Some (trim (str_of (name (req_body req)))),
               email := Some (map to_lower core)\<rparr>\<rparr>"
  show handin: "post_signin w d req r = signIn w d ?in r"
    if "notEmpty_password (password (req_body req))"
    using that vin by (simp add: post_signin_def checkValidation_def failing_def)
  show handup: "post_signup w d req r = signUp w d ?up r"
    if "2 \<le> length (trim (str_of (name (req_body req))))
           \<and> length (trim (str_of (name (req_body req)))) \<le> 50
           \<and> notEmpty_password (password (req_body req))
           \<and> isLength6_password (password (req_body req))"
  proof -
    from h that have "validateSignUp w (req_body req) =
        ((req_body req)\<lparr>name := Some (trim (str_of (name (req_body req)))),
                         email := Some (map to_lower core)\<rparr>, [])"
      by (intro validateSignUp_padded [of a b]) simp_all
    then show ?thesis by (simp add: post_signup_def checkValidation_def)
  qed
  assume st: "reachable d \<and> find (\<lambda>u. user_email u = map to_lower core) (users d) = Some row"
  show "post_signup w d req r =
              (d, status_json 400
                    [(''success'', JBool False),
                     (''message'', JStr ''Email already registered'')] r)"
    if s: "2 \<le> length (trim (str_of (name (req_body req))))
              \<and> length (trim (str_of (name (req_body req)))) \<le> 50
              \<and> password (req_body req) = Str p \<and> 6 \<le> length p"
  proof -
    from s have "post_signup w d req r = signUp w d ?up r" by (intro handup) auto
    also have "\<dots> = (d, status_json 400
                    [(''success'', JBool False),
                     (''message'', JStr ''Email already registered'')] r)"
      using s st lc
      by (intro signUp_duplicate_rejected
            [where n = "trim (str_of (name (req_body req)))" and e = "map to_lower core"
               and row = row]) auto
    finally show ?thesis .
  qed
  show "post_signin w d req r =
              status_json 401
                [(''success'', JBool False), (''message'', JStr ''Invalid email or password'')] r"
    if s: "password (req_body req) = Str p \<and> p \<noteq> []
              \<and> bcrypt_compare w p (user_password row) = Inr False"
  proof -
    from s have "post_signin w d req r = signIn w d ?in r" by (intro handin) simp
    also have "\<dots> = status_json 401
                [(''success'', JBool False), (''message'', JStr ''Invalid email or password'')] r"
      using s st lc
      by (intro signIn_found(1) [where e = "map to_lower core" and p = p and row = row]) simp_all
    finally show ?thesis .
  qed
  show "post_signin w d req r =
              status_json 200
                [(''success'', JBool True),
                 (''message'', JStr ''Signed in successfully''),
                 (''user'', JObj
                    [(''id'', JStr (user_id row)),
                     (''name'', JStr (user_name row)),
                     (''email'', JStr (user_email row)),
                     (''createdAt'', JStr (user_createdAt row))])]
                (setTokenCookie w r t)"
    if s: "password (req_body req) = Str p \<and> p \<noteq> []
              \<and> bcrypt_compare w p (user_password row) = Inr True
              \<and> generateToken w (JStr (user_id row)) = Inr t"
  proof -
    from s have "post_signin w d req r = signIn w d ?in r" by (intro handin) simp
    also have "\<dots> = status_json 200
                [(''success'', JBool True),
                 (''message'', JStr ''Signed in successfully''),
                 (''user'', JObj
                    [(''id'', JStr (user_id row)),
                     (''name'', JStr (user_name row)),
                     (''email'', JStr (user_email row)),
                     (''createdAt'', JStr (user_createdAt row))])]
                (setTokenCookie w r t)"
      using s st lc
      by (intro signIn_found(2) [where e = "map to_lower core" and p = p and row = row]) simp_all
    finally show ?thesis .
  qed
next
  assume c: "(\<forall>x y. map to_lower x = map to_lower y \<longrightarrow>
            isEmail w x = isEmail w y \<and> normalizeEmail w x = normalizeEmail w y)
        \<and> map to_lower e1 = map to_lower e2"
  then have lib: "\<And>x y. map to_lower x = map to_lower y \<Longrightarrow>
                  isEmail w x = isEmail w y \<and> normalizeEmail w x = normalizeEmail w y"
    and same: "map to_lower e1 = map to_lower e2" by blast+
  from same_case_same_reply [of w e1 e2 d req r, OF lib same]
  show "post_signin w d (req\<lparr>req_body := (req_body req)\<lparr>email := Some e1\<rparr>\<rparr>) r
          = post_signin w d (req\<lparr>req_body := (req_body req)\<lparr>email := Some e2\<rparr>\<rparr>) r"
    and "post_signup w d (req\<lparr>req_body := (req_body req)\<lparr>email := Some e1\<rparr>\<rparr>) r
          = post_signup w d (req\<lparr>req_body := (req_body req)\<lparr>email := Some e2\<rparr>\<rparr>) r"
    by simp_all
qed

theorem email_is_trimmed_and_lowercased_witness:
  "list_all is_space ''  '' \<and> list_all is_space '' ''
   \<and> \<not> is_space (hd ''John@EXAMPLE.COM'') \<and> \<not> is_space (last ''John@EXAMPLE.COM'')
   \<and> isEmail example_runtime ''John@EXAMPLE.COM''
   \<and> normalizeEmail example_runtime ''John@EXAMPLE.COM'' = ''john@example.com''
   \<and> find (\<lambda>u. user_email u = ''john@example.com'') (users example_db) = Some (hd (users example_db))
   \<and> post_signup example_runtime example_db
        (example_request (Some ''Johnny'') (Some ''  John@EXAMPLE.COM '') (Str ''secret1'')) new_res
     = (example_db,
        \<lparr>sent = [\<lparr>status = 400,
                   body = [(''success'', JBool False),
                           (''message'', JStr ''Email already registered'')]\<rparr>],
         set_cookies = []\<rparr>)
   \<and> post_signin example_runtime example_db
        (example_request None (Some ''  John@EXAMPLE.COM '') (Str ''wrong-pw'')) new_res
     = \<lparr>sent = [\<lparr>status = 401,
                  body = [(''success'', JBool False),
                          (''message'', JStr ''Invalid email or password'')]\<rparr>],
         set_cookies = []\<rparr>
   \<and> post_signin example_runtime example_db
        (example_request None (Some ''  John@EXAMPLE.COM '') (Str ''secret1'')) new_res
     = \<lparr>sent = [\<lparr>status = 200,
                  body = [(''success'', JBool True),
                          (''message'', JStr ''Signed in successfully''),
                          (''user'', JObj [(''id'', JStr ''u1''), (''name'', JStr ''John''),
                                           (''email'', JStr ''john@example.com''),
                                           (''createdAt'', JStr ''2024-04-01T09:00:00.000Z'')])]\<rparr>],
         set_cookies = [\<lparr>cookie_name = ''token'',
                          cookie_value = Jwt ''k3y'' \<lparr>userId = JStr ''u1'', iat = 1000, exp = 605800\<rparr>,
                          options = \<lparr>httpOnly = True, secure = True, sameSite = ''strict'',
                                     maxAge = Some 604800000, expires = None, path = ''/''\<rparr>\<rparr>]\<rparr>
   \<and> map to_lower ''JOHN@Example.Com'' = map to_lower ''john@example.com''
   \<and> post_signin example_runtime example_db
        (example_request None (Some ''JOHN@Example.Com'') (Str ''secret1'')) new_res
     = post_signin example_runtime example_db
        (example_request None (Some ''john@example.com'') (Str ''secret1'')) new_res"
proof -
  have lower: "map to_lower ''John@EXAMPLE.COM'' = ''john@example.com''"
    by code_simp
  have same: "map to_lower ''JOHN@Example.Com'' = map to_lower ''john@example.com''"
    by code_simp
  have sp: "list_all is_space ''  ''" "list_all is_space '' ''"
    "\<not> is_space (hd ''John@EXAMPLE.COM'')" "\<not> is_space (last ''John@EXAMPLE.COM'')"
    by (simp_all add: is_space_def)
  have ie: "isEmail example_runtime s = (CHR ''@'' \<in> set (map to_lower s))" for s
    by (simp add: example_runtime_def)
  have ne: "normalizeEmail example_runtime s = map to_lower s" for s
    by (simp add: example_runtime_def)
  have "isEmail example_runtime ''John@EXAMPLE.COM''"
    unfolding ie lower by simp
  with ne have lib: "isEmail example_runtime ''John@EXAMPLE.COM''"
    "normalizeEmail example_runtime ''John@EXAMPLE.COM'' = map to_lower ''John@EXAMPLE.COM''"
    by blast+
  have blind: "\<forall>x y. map to_lower x = map to_lower y \<longrightarrow>
      isEmail example_runtime x = isEmail example_runtime y
      \<and> normalizeEmail example_runtime x = normalizeEmail example_runtime y"
    by (simp add: example_runtime_def del: set_map)
  have row: "reachable example_db"
    "find (\<lambda>u. user_email u = map to_lower ''John@EXAMPLE.COM'') (users example_db)
       = Some (hd (users example_db))"
    unfolding lower by (simp_all add: example_db_def)
  have pw: "bcrypt_compare example_runtime ''secret1'' (user_password (hd (users example_db))) = Inr True"
    "bcrypt_compare example_runtime ''wrong-pw'' (user_password (hd (users example_db))) = Inr False"
    by (simp_all add: example_defs)
  have tok: "generateToken example_runtime (JStr (user_id (hd (users example_db))))
      = Inr (Jwt ''k3y'' \<lparr>userId = JStr ''u1'', iat = 1000, exp = 605800\<rparr>)"
    by (simp add: example_defs jwt_defs)
  have core: "''John@EXAMPLE.COM'' \<noteq> []" by simp
  let ?up = "example_request (Some ''Johnny'') (Some ''  John@EXAMPLE.COM '') (Str ''secret1'')"
  let ?bad = "example_request None (Some ''  John@EXAMPLE.COM '') (Str ''wrong-pw'')"
  let ?good = "example_request None (Some ''  John@EXAMPLE.COM '') (Str ''secret1'')"
  let ?t = "Jwt ''k3y'' \<lparr>userId = JStr ''u1'', iat = 1000, exp = 605800\<rparr>"
  have e_up: "email (req_body ?up) = Some (''  '' @ ''John@EXAMPLE.COM'' @ '' '')"
    and n_up: "2 \<le> length (trim (str_of (name (req_body ?up))))"
      "length (trim (str_of (name (req_body ?up)))) \<le> 50"
    and p_up: "password (req_body ?up) = Str ''secret1''" "6 \<le> length ''secret1''"
    by (simp_all add: example_request_def str_of_def trim_def is_space_def)
  have e_bad: "email (req_body ?bad) = Some (''  '' @ ''John@EXAMPLE.COM'' @ '' '')"
    and p_bad: "password (req_body ?bad) = Str ''wrong-pw''" "''wrong-pw'' \<noteq> []"
    by (simp_all add: example_request_def)
  have e_good: "email (req_body ?good) = Some (''  '' @ ''John@EXAMPLE.COM'' @ '' '')"
    and p_good: "password (req_body ?good) = Str ''secret1''" "''secret1'' \<noteq> []"
    by (simp_all add: example_request_def)
  note T = email_is_trimmed_and_lowercased [where w = example_runtime and d = example_db
      and r = new_res and a = "''  ''" and b = "'' ''" and core = "''John@EXAMPLE.COM''"
      and row = "hd (users example_db)"]
  have up: "post_signup example_runtime example_db ?up new_res
     = (example_db, status_json 400
          [(''success'', JBool False), (''message'', JStr ''Email already registered'')] new_res)"
    using T [where req = ?up and p = "''secret1''"] sp lib row core e_up n_up p_up
    by blast
  have bad: "post_signin example_runtime example_db ?bad new_res
     = status_json 401
         [(''success'', JBool False), (''message'', JStr ''Invalid email or password'')] new_res"
    using T [where req = ?bad and p = "''wrong-pw''"] sp lib row core e_bad p_bad pw
    by blast
  have good: "post_signin example_runtime example_db ?good new_res
     = status_json 200
         [(''success'', JBool True),
          (''message'', JStr ''Signed in successfully''),
          (''user'', JObj
             [(''id'', JStr (user_id (hd (users example_db)))),
              (''name'', JStr (user_name (hd (users example_db)))),
              (''email'', JStr (user_email (hd (users example_db)))),
              (''createdAt'', JStr (user_createdAt (hd (users example_db))))])]
         (setTokenCookie example_runtime new_res ?t)"
    using T [where req = ?good and p = "''secret1''" and t = ?t]
      sp lib row core e_good p_good pw tok
    by blast
  have eq: "post_signin example_runtime example_db
        (example_request None (Some ''JOHN@Example.Com'') (Str ''secret1'')) new_res
     = post_signin example_runtime example_db
        (example_request None (Some ''john@example.com'') (Str ''secret1'')) new_res"
  proof -
    have "post_signin example_runtime example_db
        ((example_request None None (Str ''secret1''))
           \<lparr>req_body := (req_body (example_request None None (Str ''secret1'')))
              \<lparr>email := Some ''JOHN@Example.Com''\<rparr>\<rparr>) new_res
      = post_signin example_runtime example_db
        ((example_request None None (Str ''secret1''))
           \<lparr>req_body := (req_body (example_request None None (Str ''secret1'')))
              \<lparr>email := Some ''john@example.com''\<rparr>\<rparr>) new_res"
      using T [where req = "example_request None None (Str ''secret1'')"
        and ?e1.0 = "''JOHN@Example.Com''" and ?e2.0 = "''john@example.com''"] blind same
      by blast
    then show ?thesis by (simp add: example_request_def)
  qed
  have found: "find (\<lambda>u. user_email u = ''john@example.com'') (users example_db)
      = Some (hd (users example_db))"
    by (simp add: example_db_def)
  have norm: "normalizeEmail example_runtime ''John@EXAMPLE.COM'' = ''john@example.com''"
    using lib(2) unfolding lower .
  have up': "post_signup example_runtime example_db ?up new_res
     = (example_db,
        \<lparr>sent = [\<lparr>status = 400,
                   body = [(''success'', JBool False),
                           (''message'', JStr ''Email already registered'')]\<rparr>],
         set_cookies = []\<rparr>)"
    unfolding up by (simp add: status_json_def new_res_def)
  have bad': "post_signin example_runtime example_db ?bad new_res
     = \<lparr>sent = [\<lparr>status = 401,
                  body = [(''success'', JBool False),
                          (''message'', JStr ''Invalid email or password'')]\<rparr>],
         set_cookies = []\<rparr>"
    unfolding bad by (simp add: status_json_def new_res_def)
  have good': "post_signin example_runtime example_db ?good new_res
     = \<lparr>sent = [\<lparr>status = 200,
                  body = [(''success'', JBool True),
                          (''message'', JStr ''Signed in successfully''),
                          (''user'', JObj [(''id'', JStr ''u1''), (''name'', JStr ''John''),
                                           (''email'', JStr ''john@example.com''),
                                           (''createdAt'', JStr ''2024-04-01T09:00:00.000Z'')])]\<rparr>],
         set_cookies = [\<lparr>cookie_name = ''token'',
                          cookie_value = Jwt ''k3y'' \<lparr>userId = JStr ''u1'', iat = 1000, exp = 605800\<rparr>,
                          options = \<lparr>httpOnly = True, secure = True, sameSite = ''strict'',
                                     maxAge = Some 604800000, expires = None, path = ''/''\<rparr>\<rparr>]\<rparr>"
    unfolding good
    by (simp add: status_json_def setTokenCookie_def res_cookie_def new_res_def
          example_db_def example_runtime_def)
  from sp \<open>isEmail example_runtime ''John@EXAMPLE.COM''\<close> norm found up' bad' good' same eq
  show ?thesis by blast
qed

end
